theory Spec2Isabelle
  imports Main "HOL-Library.FSet"
begin

section \<open>Python built-ins used by \<open>rules_generator.py\<close>\<close>

text \<open>
  Strings are \<open>char list\<close>s. A text value that may be \<open>None\<close> is a \<open>string option\<close>;
  Python's truth test \<open>if x:\<close> holds for a non-empty string only.
\<close>

fun truthy :: "string option \<Rightarrow> bool" where
  "truthy None = False"
| "truthy (Some v) = (v \<noteq> [])"

text \<open>\<open>sep.join(xs)\<close>\<close>

fun join_str :: "string \<Rightarrow> string list \<Rightarrow> string" where
  "join_str sep [] = []"
| "join_str sep [x] = x"
| "join_str sep (x # y # ys) = x @ sep @ join_str sep (y # ys)"

text \<open>\<open>s.startswith(p)\<close> and \<open>s.endswith(p)\<close>\<close>

definition startswith :: "string \<Rightarrow> string \<Rightarrow> bool" where
  "startswith s p = (take (length p) s = p)"

definition endswith :: "string \<Rightarrow> string \<Rightarrow> bool" where
  "endswith s p = (length p \<le> length s \<and> drop (length s - length p) s = p)"

text \<open>\<open>s.replace(old, new)\<close> for a non-empty \<open>old\<close>: every non-overlapping occurrence,
  scanning from the left.\<close>

function str_replace :: "string \<Rightarrow> string \<Rightarrow> string \<Rightarrow> string" where
  "str_replace old new s =
     (if s = [] \<or> old = [] then s
      else if startswith s old then new @ str_replace old new (drop (length old) s)
      else hd s # str_replace old new (tl s))"
  by pat_completeness auto
termination
  by (relation "measure (\<lambda>(old, new, s). length s)") auto

declare str_replace.simps [simp del]

text \<open>\<open>'%s' % n\<close> for an integer \<open>n\<close>: its decimal text.\<close>

function str_nat :: "nat \<Rightarrow> string" where
  "str_nat n =
     (if n < 10 then [''0123456789'' ! n]
      else str_nat (n div 10) @ [''0123456789'' ! (n mod 10)])"
  by pat_completeness auto
termination
  by (relation "measure id") auto

declare str_nat.simps [simp del]

definition str_int :: "int \<Rightarrow> string" where
  "str_int i = (if i < 0 then ''-'' @ str_nat (nat (- i)) else str_nat (nat i))"

section \<open>\<open>posixpath\<close>\<close>

text \<open>\<open>s.split(sep)\<close> for a one-character separator: empty pieces are kept.\<close>

fun split_sep :: "char \<Rightarrow> string \<Rightarrow> string list" where
  "split_sep sep [] = [[]]"
| "split_sep sep (ch # cs) =
     (if ch = sep then [] # split_sep sep cs
      else (case split_sep sep cs of
              [] \<Rightarrow> [[ch]]
            | w # ws \<Rightarrow> (ch # w) # ws))"

definition isabs :: "string \<Rightarrow> bool" where
  "isabs p = startswith p ''/''"

text \<open>One round of the loop of \<open>posixpath.join(a, *p)\<close>, then the loop.\<close>

definition path_join_step :: "string \<Rightarrow> string \<Rightarrow> string" where
  "path_join_step path b =
     (if startswith b ''/'' then b
      else if path = [] \<or> endswith path ''/'' then path @ b
      else path @ ''/'' @ b)"

definition path_join :: "string \<Rightarrow> string list \<Rightarrow> string" where
  "path_join a p = foldl path_join_step a p"

text \<open>One round of the component loop of \<open>posixpath.normpath\<close>, then the function.\<close>

definition normpath_step :: "nat \<Rightarrow> string list \<Rightarrow> string \<Rightarrow> string list" where
  "normpath_step initial_slashes new_comps part =
     (if part = [] \<or> part = ''.'' then new_comps
      else if part \<noteq> ''..'' \<or> (initial_slashes = 0 \<and> new_comps = [])
              \<or> (new_comps \<noteq> [] \<and> last new_comps = ''..'')
        then new_comps @ [part]
      else if new_comps \<noteq> [] then butlast new_comps
      else new_comps)"

definition normpath :: "string \<Rightarrow> string" where
  "normpath path =
     (if path = [] then ''.''
      else
        let initial_slashes =
              (if startswith path ''/''
               then (if startswith path ''//'' \<and> \<not> startswith path ''///'' then 2 else 1)
               else (0::nat));
            comps = foldl (normpath_step initial_slashes) [] (split_sep CHR ''/'' path);
            p = replicate initial_slashes CHR ''/'' @ join_str ''/'' comps
        in if p = [] then ''.'' else p)"

text \<open>\<open>os.path.abspath\<close>; the working directory \<open>os.getcwd()\<close> is the first argument.\<close>

definition abspath :: "string \<Rightarrow> string \<Rightarrow> string" where
  "abspath cwd path = normpath (if isabs path then path else path_join cwd [path])"

text \<open>\<open>len(commonprefix([xs, ys]))\<close>\<close>

fun common_len :: "string list \<Rightarrow> string list \<Rightarrow> nat" where
  "common_len (x # xs) (y # ys) = (if x = y then Suc (common_len xs ys) else 0)"
| "common_len _ _ = 0"

datatype error =
    ValueError string
  | SystemExit string

text \<open>\<open>os.path.relpath(path, start)\<close>: raises \<open>ValueError\<close> on an empty path.\<close>

definition relpath :: "string \<Rightarrow> string \<Rightarrow> string \<Rightarrow> error + string" where
  "relpath cwd path start =
     (if path = [] then Inl (ValueError ''no path specified'')
      else
        let start_list = filter (\<lambda>x. x \<noteq> []) (split_sep CHR ''/'' (abspath cwd start));
            path_list = filter (\<lambda>x. x \<noteq> []) (split_sep CHR ''/'' (abspath cwd path));
            i = common_len start_list path_list;
            rel_list = replicate (length start_list - i) ''..'' @ drop i path_list
        in (case rel_list of
              [] \<Rightarrow> Inr ''.''
            | r # rs \<Rightarrow> Inr (path_join r rs)))"

section \<open>The generator's state and its inputs\<close>

text \<open>
  What a \<open>NinjaScriptHeaderGenerator\<close> mutates: its buffer \<open>rules_buf\<close>, its set of rule
  names, the process environment \<open>os.environ\<close>, and the list objects that belong to its
  collaborators and that it extends in place. A list object is named by a reference;
  \<open>py_lists\<close> gives the elements each list holds.
\<close>

type_synonym ref = nat

record gen_state =
  rules_buf :: "string list"
  all_rule_names :: "string fset"
  os_environ :: "string \<rightharpoonup> string"
  py_lists :: "ref \<Rightarrow> string list"

text \<open>
  What the generator reads and never writes: its constructor arguments, the collaborating
  objects (\<open>build_environment\<close>, \<open>ccflags_manager\<close>, \<open>blade\<close>, \<open>console\<close>, \<open>blade_util\<close>),
  the interpreter (\<open>sys.executable\<close>, \<open>os.getcwd()\<close>) and the sections of \<open>blade.config\<close>, one
  field per item the code looks up. A text item that is unset (\<open>None\<close> or \<open>''\<close>) is the empty
  string, an unset number is 0: the code tests such an item for truth before it uses it. An
  item of \<open>java_config\<close> read with \<open>.get(key, default)\<close> is \<open>None\<close> when the key is missing.
  The call \<open>ccflags_manager.get_warning_flags()\<close> returns three list objects: it is a
  function from the list objects before the call to three references and the list objects
  after it, so that it may hand out lists of its own or new ones.
\<close>

record config =
  self_build_dir :: string
  self_blade_path :: string
  self_cc :: string
  self_cc_version :: string
  options_profile :: string
  ccache_installed :: bool
  blade_root_dir :: string
  sys_executable :: string
  os_getcwd :: string
  parallel_jobs_num :: int
  console_colored :: "string \<Rightarrow> string \<Rightarrow> string"
  get_warning_flags :: "(ref \<Rightarrow> string list) \<Rightarrow> (ref \<times> ref \<times> ref) \<times> (ref \<Rightarrow> string list)"
  get_flags_except_warning :: "string list \<times> string list"
  load_scm :: "string \<times> string"
  cc_config_cflags :: "string list"
  cc_config_cxxflags :: "string list"
  cc_config_cppflags :: "string list"
  cc_config_linkflags :: "string list"
  cc_config_extra_incs :: "string list"
  cc_config_securecc :: string
  cc_config_header_inclusion_dependencies :: bool
  cc_library_config_arflags :: "string list"
  link_config_link_jobs :: int
  proto_library_config_protoc :: string
  proto_library_config_protoc_java :: string
  proto_library_config_protobuf_incs :: "string list"
  proto_library_config_protobuf_java_incs :: "string list"
  proto_library_config_protoc_go_plugin :: string
  proto_library_config_protobuf_go_path :: string
  proto_library_config_protoc_go_subplugins :: "string list"
  go_config_go_home :: string
  go_config_go :: string
  go_config_go_module_enabled :: bool
  go_config_go_module_relpath :: string
  java_config_java_home :: string
  java_config_version :: string
  java_config_source_version :: "string option"
  java_config_target_version :: "string option"
  java_test_config_jacoco_home :: string
  java_binary_config_one_jar_boot_jar :: string
  scala_config_scala_home :: string
  thrift_config_thrift_incs :: "string list"
  thrift_config_thrift_gen_params :: string
  thrift_config_thrift :: string

text \<open>A routine that may raise returns the error with the state reached at the raise.\<close>

type_synonym result = "(error \<times> gen_state) + gen_state"

text \<open>\<open>os.environ.get(key, default)\<close>\<close>

definition environ_get :: "(string \<rightharpoonup> string) \<Rightarrow> string \<Rightarrow> string \<Rightarrow> string" where
  "environ_get env key dflt = (case env key of None \<Rightarrow> dflt | Some v \<Rightarrow> v)"

section \<open>\<open>ScriptHeaderGenerator\<close> and \<open>NinjaScriptHeaderGenerator\<close>\<close>

definition add_rule :: "string \<Rightarrow> gen_state \<Rightarrow> gen_state" where
  "add_rule rule s = s\<lparr>rules_buf := rules_buf s @ [rule @ ''\<newline>'']\<rparr>"

definition get_all_rule_names :: "gen_state \<Rightarrow> string fset" where
  "get_all_rule_names s = all_rule_names s"

definition generate_rule ::
  "config \<Rightarrow> string \<Rightarrow> string \<Rightarrow> string option \<Rightarrow> string option \<Rightarrow> bool \<Rightarrow> string option \<Rightarrow>
   bool \<Rightarrow> string option \<Rightarrow> string option \<Rightarrow> string option \<Rightarrow> gen_state \<Rightarrow> gen_state" where
  "generate_rule c name command description depfile generator pool restat rspfile
       rspfile_content deps s =
     (let s = s\<lparr>all_rule_names := finsert name (all_rule_names s)\<rparr>;
          s = add_rule (''rule '' @ name) s;
          s = add_rule (''  command = '' @ command) s;
          s = (if truthy description
               then add_rule (''  description = ''
                              @ console_colored c (the description) ''dimpurple'') s
               else s);
          s = (if truthy depfile then add_rule (''  depfile = '' @ the depfile) s else s);
          s = (if generator then add_rule ''  generator = 1'' s else s);
          s = (if truthy pool then add_rule (''  pool = '' @ the pool) s else s);
          s = (if restat then add_rule ''  restat = 1'' s else s);
          s = (if truthy rspfile then add_rule (''  rspfile = '' @ the rspfile) s else s);
          s = (if truthy rspfile_content
               then add_rule (''  rspfile_content = '' @ the rspfile_content) s
               else s);
          s = (if truthy deps then add_rule (''  deps = '' @ the deps) s else s)
      in s)"

definition toolchain_command :: "config \<Rightarrow> string \<Rightarrow> string \<Rightarrow> string \<Rightarrow> string" where
  "toolchain_command c builder prefix suffix =
     (let cmd = [''PYTHONPATH='' @ self_blade_path c @ '':$$PYTHONPATH''];
          cmd = (if prefix \<noteq> [] then cmd @ [prefix] else cmd);
          cmd = cmd @ [sys_executable c @ '' -m blade.toolchain '' @ builder];
          cmd = (if suffix \<noteq> [] then cmd @ [suffix] else cmd @ [''${out} ${in}''])
      in join_str '' '' cmd)"

definition generate_file_header :: "config \<Rightarrow> gen_state \<Rightarrow> gen_state" where
  "generate_file_header c s =
     (let s = add_rule (''# build.ninja generated by blade\<newline>''
                        @ ''ninja_required_version = 1.7\<newline>''
                        @ ''builddir = '' @ self_build_dir c) s;
          s = add_rule (''pool heavy_pool\<newline>''
                        @ ''  depth = 1\<newline>'') s
      in s)"

definition generate_common_rules :: "config \<Rightarrow> gen_state \<Rightarrow> gen_state" where
  "generate_common_rules c s =
     (let s = generate_rule c ''stamp'' ''touch ${out}'' (Some ''STAMP ${out}'')
                None False None False None None None s;
          s = generate_rule c ''copy'' ''cp -f ${in} ${out}'' (Some ''COPY ${in} ${out}'')
                None False None False None None None s
      in s)"

text \<open>
  \<open>c_warnings += warnings\<close> and \<open>cxx_warnings += warnings\<close> extend the list objects that
  \<open>get_warning_flags\<close> returned, in place; the text is built from the lists as extended.
\<close>

definition generate_cc_warning_vars :: "config \<Rightarrow> gen_state \<Rightarrow> gen_state" where
  "generate_cc_warning_vars c s =
     (case get_warning_flags c (py_lists s) of
        ((warnings, cxx_warnings, c_warnings), objs) \<Rightarrow>
          let objs = objs(c_warnings := objs c_warnings @ objs warnings);
              objs = objs(cxx_warnings := objs cxx_warnings @ objs warnings);
              s = s\<lparr>py_lists := objs\<rparr>
          in add_rule (''c_warnings = '' @ join_str '' '' (objs c_warnings) @ ''\<newline>''
                       @ ''cxx_warnings = '' @ join_str '' '' (objs cxx_warnings)
                       @ ''\<newline>'') s)"

definition generate_cc_rules :: "config \<Rightarrow> gen_state \<Rightarrow> gen_state" where
  "generate_cc_rules c s =
     (let build_with_ccache = ccache_installed c;
          cc = environ_get (os_environ s) ''CC'' ''gcc'';
          cxx = environ_get (os_environ s) ''CXX'' ''g++'';
          ld = environ_get (os_environ s) ''LD'' ''g++'';
          s = (if build_with_ccache
               then s\<lparr>os_environ := (os_environ s)(''CCACHE_BASEDIR'' \<mapsto> blade_root_dir c,
                                                   ''CCACHE_NOHASHDIR'' \<mapsto> ''true'')\<rparr>
               else s);
          cc = (if build_with_ccache then ''ccache '' @ cc else cc);
          cxx = (if build_with_ccache then ''ccache '' @ cxx else cxx);
          cflags = cc_config_cflags c;
          cxxflags = cc_config_cxxflags c;
          cppflags = cc_config_cppflags c @ fst (get_flags_except_warning c);
          arflags = concat (cc_library_config_arflags c);
          ldflags = cc_config_linkflags c @ snd (get_flags_except_warning c);
          includes = cc_config_extra_incs c @ [''.'', self_build_dir c];
          includes = join_str '' '' (map (\<lambda>inc. ''-I'' @ inc) includes);
          s = generate_cc_warning_vars c s;
          s = generate_rule c ''cc''
                (cc @ '' -o ${out} -MMD -MF ${out}.d -c -fPIC '' @ join_str '' '' cflags @ '' ''
                 @ join_str '' '' cppflags @ '' ${c_warnings} ${cppflags} '' @ includes
                 @ '' ${includes} ${in}'')
                (Some ''CC ${in}'') (Some ''${out}.d'') False None False None None (Some ''gcc'') s;
          s = generate_rule c ''cxx''
                (cxx @ '' -o ${out} -MMD -MF ${out}.d -c -fPIC '' @ join_str '' '' cxxflags @ '' ''
                 @ join_str '' '' cppflags @ '' ${cxx_warnings} ${cppflags} '' @ includes
                 @ '' ${includes} ${in}'')
                (Some ''CXX ${in}'') (Some ''${out}.d'') False None False None None (Some ''gcc'') s;
          s = (if cc_config_header_inclusion_dependencies c
               then
                 let preprocess = (\<lambda>a b d e. a @ '' -o /dev/null -E -H '' @ b @ '' '' @ d
                                     @ '' -w ${cppflags} '' @ e @ '' ${includes} ${in} 2>${out}'');
                     s = generate_rule c ''cchdrs''
                           (preprocess cc (join_str '' '' cflags) (join_str '' '' cppflags) includes)
                           (Some ''CC HDRS ${in}'') None False None False None None None s;
                     s = generate_rule c ''cxxhdrs''
                           (preprocess cxx (join_str '' '' cxxflags) (join_str '' '' cppflags) includes)
                           (Some ''CXX HDRS ${in}'') None False None False None None None s
                 in s
               else s);
          securecc = cc_config_securecc c @ '' '' @ cxx;
          s = add_rule ''build __securecc_phony__ : phony\<newline>'' s;
          s = generate_rule c ''securecccompile''
                (securecc @ '' -o ${out} -c -fPIC '' @ join_str '' '' cxxflags @ '' ''
                 @ join_str '' '' cppflags @ '' ${cxx_warnings} ${cppflags} '' @ includes
                 @ '' ${includes} ${in}'')
                (Some ''SECURECC ${in}'') None False None False None None None s;
          s = generate_rule c ''securecc'' (toolchain_command c ''securecc_object'' [] [])
                (Some ''SECURECC ${in}'') None False None True None None None s;
          s = generate_rule c ''ar'' (''rm -f $out; ar '' @ arflags @ '' $out $in'')
                (Some ''AR ${out}'') None False None False None None None s;
          link_jobs = link_config_link_jobs c;
          (pool, s) =
            (if link_jobs \<noteq> 0
             then
               let link_jobs = min link_jobs (parallel_jobs_num c);
                   pool = ''link_pool'';
                   s = add_rule (''pool '' @ pool @ ''\<newline>''
                                 @ ''  depth = '' @ str_int link_jobs) s
               in (Some pool, s)
             else (None, s));
          s = generate_rule c ''link''
                (ld @ '' -o ${out} '' @ join_str '' '' ldflags @ '' ${ldflags} ${in} ${extra_ldflags}'')
                (Some ''LINK ${out}'') None False pool False None None None s;
          s = generate_rule c ''solink''
                (ld @ '' -o ${out} -shared '' @ join_str '' '' ldflags
                 @ '' ${ldflags} ${in} ${extra_ldflags}'')
                (Some ''SHAREDLINK ${out}'') None False pool False None None None s;
          s = generate_rule c ''strip'' ''strip --strip-unneeded -o ${out} ${in}''
                (Some ''STRIP ${out}'') None False None False None None None s
      in s)"

definition protoc_import_path_option :: "string list \<Rightarrow> string" where
  "protoc_import_path_option incs = join_str '' '' (map (\<lambda>inc. ''-I='' @ inc) incs)"

definition incs_list_to_string :: "string list \<Rightarrow> string" where
  "incs_list_to_string incs = join_str '' '' (map (\<lambda>path. ''-I '' @ path) incs)"

text \<open>
  Modelled from the spec: \<open>console.error_exit\<close> (module \<open>blade.console\<close> is not part of the
  source at hand). A missing required setting "is a hard configuration error aborting
  synthesis with a descriptive message": the call raises \<open>SystemExit\<close> with the message and
  the statements after it do not run.
\<close>

definition error_exit :: "string \<Rightarrow> gen_state \<Rightarrow> result" where
  "error_exit msg s = Inl (SystemExit msg, s)"

definition generate_proto_rules :: "config \<Rightarrow> gen_state \<Rightarrow> result" where
  "generate_proto_rules c s =
     (let protoc = proto_library_config_protoc c;
          protoc_java = (if proto_library_config_protoc_java c \<noteq> []
                         then proto_library_config_protoc_java c else protoc);
          protobuf_incs = protoc_import_path_option (proto_library_config_protobuf_incs c);
          protobuf_java_incs =
            (if proto_library_config_protobuf_java_incs c \<noteq> []
             then protoc_import_path_option (proto_library_config_protobuf_java_incs c)
             else protobuf_incs);
          s = add_rule (''protocflags =\<newline>''
                        @ ''protoccpppluginflags =\<newline>''
                        @ ''protocjavapluginflags =\<newline>''
                        @ ''protocpythonpluginflags =\<newline>'') s;
          s = generate_rule c ''proto''
                (protoc @ '' --proto_path=. '' @ protobuf_incs @ '' -I=`dirname ${in}` --cpp_out=''
                 @ self_build_dir c @ '' ${protocflags} ${protoccpppluginflags} ${in}'')
                (Some ''PROTOC ${in}'') None False None False None None None s;
          s = generate_rule c ''protojava''
                (protoc_java @ '' --proto_path=. '' @ protobuf_java_incs @ '' --java_out=''
                 @ self_build_dir c @ ''/`dirname ${in}` ${protocjavapluginflags} ${in}'')
                (Some ''PROTOCJAVA ${in}'') None False None False None None None s;
          s = generate_rule c ''protopython''
                (protoc @ '' --proto_path=. '' @ protobuf_incs @ '' -I=`dirname ${in}` --python_out=''
                 @ self_build_dir c @ '' ${protocpythonpluginflags} ${in}'')
                (Some ''PROTOCPYTHON ${in}'') None False None False None None None s;
          s = generate_rule c ''protodescriptors''
                (protoc @ '' --proto_path=. '' @ protobuf_incs @ '' -I=`dirname ${first}` ''
                 @ ''--descriptor_set_out=${out} --include_imports --include_source_info ${in}'')
                (Some ''PROTODESCRIPTORS ${in}'') None False None False None None None s;
          protoc_go_plugin = proto_library_config_protoc_go_plugin c
      in if protoc_go_plugin \<noteq> []
         then
           let go_home = go_config_go_home c;
               go_module_enabled = go_config_go_module_enabled c;
               go_module_relpath = go_config_go_module_relpath c
           in if go_home = []
              then error_exit
                     ''go_home is not configured in either BLADE_ROOT or BLADE_ROOT.local.'' s
              else
                let outdir = (if go_module_enabled \<and> go_module_relpath = []
                              then proto_library_config_protobuf_go_path c
                              else path_join go_home [''src'']);
                    subplugins = proto_library_config_protoc_go_subplugins c;
                    go_out = (if subplugins \<noteq> []
                              then ''plugins='' @ join_str ''+'' subplugins @ '':'' @ outdir
                              else outdir)
                in Inr (generate_rule c ''protogo''
                          (protoc @ '' --proto_path=. '' @ protobuf_incs @ '' -I=`dirname ${in}` ''
                           @ ''--plugin=protoc-gen-go='' @ protoc_go_plugin @ '' --go_out='' @ go_out
                           @ '' ${in}'')
                          (Some ''PROTOCGOLANG ${in}'') None False None False None None None s)
         else Inr s)"

definition generate_resource_rules :: "config \<Rightarrow> gen_state \<Rightarrow> gen_state" where
  \<open>generate_resource_rules c s =
     (let args = ''${name} ${path} ${out} ${in}'';
          s = generate_rule c ''resource_index'' (toolchain_command c ''resource_index'' [] args)
                (Some ''RESOURCE INDEX ${out}'') None False None False None None None s;
          s = generate_rule c ''resource''
                (''xxd -i ${in} | ''
                 @ ''sed -e "s/^unsigned char /const char RESOURCE_/g" ''
                 @ ''-e "s/^unsigned int /const unsigned int RESOURCE_/g" > ${out}'')
                (Some ''RESOURCE ${in}'') None False None False None None None s
      in s)\<close>

definition get_java_command :: "config \<Rightarrow> string \<Rightarrow> string" where
  "get_java_command c cmd =
     (let java_home = java_config_java_home c
      in if java_home \<noteq> [] then path_join java_home [''bin'', cmd] else cmd)"

definition generate_javac_rules :: "config \<Rightarrow> gen_state \<Rightarrow> gen_state" where
  "generate_javac_rules c s =
     (let javac = get_java_command c ''javac'';
          jar = get_java_command c ''jar'';
          cmd = [javac];
          version = java_config_version c;
          source_version = (case java_config_source_version c of None \<Rightarrow> version | Some v \<Rightarrow> v);
          target_version = (case java_config_target_version c of None \<Rightarrow> version | Some v \<Rightarrow> v);
          cmd = (if source_version \<noteq> [] then cmd @ [''-source '' @ source_version] else cmd);
          cmd = (if target_version \<noteq> [] then cmd @ [''-target '' @ target_version] else cmd);
          cmd = cmd @ [''-encoding ${source_encoding}'',
                       ''-d ${classes_dir}'',
                       ''-classpath ${classpath}'',
                       ''${javacflags}'',
                       ''${in}''];
          s = add_rule (''source_encoding = UTF-8\<newline>''
                        @ ''classpath = .\<newline>''
                        @ ''javacflags =\<newline>'') s;
          s = generate_rule c ''javac''
                (''rm -fr ${classes_dir} && mkdir -p ${classes_dir} && '' @ join_str '' '' cmd
                 @ '' && sleep 0.5 && '' @ jar @ '' cf ${out} -C ${classes_dir} .'')
                (Some ''JAVAC ${in}'') None False None False None None None s
      in s)"

definition generate_java_resource_rules :: "config \<Rightarrow> gen_state \<Rightarrow> gen_state" where
  "generate_java_resource_rules c s =
     generate_rule c ''javaresource'' (toolchain_command c ''java_resource'' [] [])
       (Some ''JAVA RESOURCE ${in}'') None False None False None None None s"

definition generate_java_test_rules :: "config \<Rightarrow> gen_state \<Rightarrow> gen_state" where
  "generate_java_test_rules c s =
     (let jacoco_home = java_test_config_jacoco_home c;
          prefix = (if jacoco_home \<noteq> []
                    then ''BLADE_JACOCOAGENT='' @ path_join jacoco_home [''lib'', ''jacocoagent.jar'']
                    else []);
          s = add_rule ''javatargetundertestpkg = __targetundertestpkg__'' s;
          args = ''${mainclass} ${javatargetundertestpkg} ${out} ${in}'';
          s = generate_rule c ''javatest'' (toolchain_command c ''java_test'' prefix args)
                (Some ''JAVA TEST ${out}'') None False None False None None None s
      in s)"

definition generate_java_binary_rules :: "config \<Rightarrow> gen_state \<Rightarrow> gen_state" where
  "generate_java_binary_rules c s =
     (let bootjar = java_binary_config_one_jar_boot_jar c;
          args = bootjar @ '' ${mainclass} ${out} ${in}'';
          s = generate_rule c ''onejar'' (toolchain_command c ''java_onejar'' [] args)
                (Some ''ONE JAR ${out}'') None False None False None None None s;
          s = generate_rule c ''javabinary'' (toolchain_command c ''java_binary'' [] [])
                (Some ''JAVA BIN ${out}'') None False None False None None None s
      in s)"

definition generate_scala_rules :: "config \<Rightarrow> gen_state \<Rightarrow> gen_state" where
  "generate_scala_rules c s =
     (let scala_home = scala_config_scala_home c;
          scala = (if scala_home \<noteq> [] then path_join scala_home [''bin'', ''scala'']
                   else ''scala'');
          scalac = (if scala_home \<noteq> [] then path_join scala_home [''bin'', ''scalac'']
                    else ''scalac'');
          java = get_java_command c ''java'';
          s = add_rule ''scalacflags = -nowarn\<newline>'' s;
          cmd = [''JAVACMD='' @ java,
                 scalac,
                 ''-encoding UTF8'',
                 ''-d ${out}'',
                 ''-classpath ${classpath}'',
                 ''${scalacflags}'',
                 ''${in}''];
          s = generate_rule c ''scalac'' (join_str '' '' cmd)
                (Some ''SCALAC ${out}'') None False None False None None None s;
          args = java @ '' '' @ scala @ '' ${out} ${in}'';
          s = generate_rule c ''scalatest'' (toolchain_command c ''scala_test'' [] args)
                (Some ''SCALA TEST ${out}'') None False None False None None None s
      in s)"

definition generate_java_scala_rules :: "config \<Rightarrow> gen_state \<Rightarrow> gen_state" where
  "generate_java_scala_rules c s =
     (let s = generate_javac_rules c s;
          s = generate_java_resource_rules c s;
          jar = get_java_command c ''jar'';
          args = jar @ '' ${out} ${in}'';
          s = generate_rule c ''javajar'' (toolchain_command c ''java_jar'' [] args)
                (Some ''JAVA JAR ${out}'') None False None False None None None s;
          s = generate_java_test_rules c s;
          s = generate_rule c ''fatjar'' (toolchain_command c ''java_fatjar'' [] [])
                (Some ''FAT JAR ${out}'') None False None False None None None s;
          s = generate_java_binary_rules c s;
          s = generate_scala_rules c s
      in s)"

definition generate_thrift_rules :: "config \<Rightarrow> gen_state \<Rightarrow> gen_state" where
  "generate_thrift_rules c s =
     (let incs = incs_list_to_string (thrift_config_thrift_incs c);
          gen_params = thrift_config_thrift_gen_params c;
          thrift = thrift_config_thrift c;
          thrift = (if startswith thrift ''//''
                    then str_replace '':'' ''/'' (str_replace ''//'' (self_build_dir c @ ''/'') thrift)
                    else thrift)
      in generate_rule c ''thrift''
           (thrift @ '' --gen '' @ gen_params @ '' -I . '' @ incs @ '' -I `dirname ${in}` -out ''
            @ self_build_dir c @ ''/`dirname ${in}` ${in}'')
           (Some ''THRIFT ${in}'') None False None False None None None s)"

definition generate_python_rules :: "config \<Rightarrow> gen_state \<Rightarrow> gen_state" where
  "generate_python_rules c s =
     (let s = add_rule ''pythonbasedir = __pythonbasedir__\<newline>'' s;
          args = ''${pythonbasedir} ${out} ${in}'';
          s = generate_rule c ''pythonlibrary'' (toolchain_command c ''python_library'' [] args)
                (Some ''PYTHON LIBRARY ${out}'') None False None False None None None s;
          args = ''${pythonbasedir} ${mainentry} ${out} ${in}'';
          s = generate_rule c ''pythonbinary'' (toolchain_command c ''python_binary'' [] args)
                (Some ''PYTHON BINARY ${out}'') None False None False None None None s
      in s)"

text \<open>
  The part of \<open>generate_go_rules\<close> that fixes the command prefix and the prefix of the output
  path: the statements between the pool declaration and the first \<open>generate_rule\<close>.
\<close>

definition go_prefixes :: "config \<Rightarrow> error + (string \<times> string)" where
  "go_prefixes c =
     (let go_home = go_config_go_home c;
          go = go_config_go c;
          go_module_enabled = go_config_go_module_enabled c;
          go_module_relpath = go_config_go_module_relpath c;
          go_path = normpath (abspath (os_getcwd c) go_home);
          out_relative = []
      in if go_module_enabled
         then
           let prefix = go
           in if go_module_relpath \<noteq> []
              then (case relpath (os_getcwd c) prefix go_module_relpath of
                      Inl e \<Rightarrow> Inl e
                    | Inr relative_prefix \<Rightarrow>
                        let prefix = ''cd '' @ go_module_relpath @ '' && '' @ relative_prefix
                        in (case relpath (os_getcwd c) ''./'' go_module_relpath of
                              Inl e \<Rightarrow> Inl e
                            | Inr r \<Rightarrow> Inr (prefix, path_join r [[]])))
              else Inr (prefix, out_relative)
         else Inr (''GOPATH='' @ go_path @ '' '' @ go, out_relative))"

definition generate_go_rules :: "config \<Rightarrow> gen_state \<Rightarrow> result" where
  "generate_go_rules c s =
     (if go_config_go_home c \<noteq> [] \<and> go_config_go c \<noteq> []
      then
        let go_pool = ''golang_pool'';
            s = add_rule (''pool '' @ go_pool @ ''\<newline>''
                          @ ''  depth = 1'') s
        in (case go_prefixes c of
              Inl e \<Rightarrow> Inl (e, s)
            | Inr (prefix, out_relative) \<Rightarrow>
                let s = generate_rule c ''gopackage''
                          (prefix @ '' install ${extra_goflags} ${package}'')
                          (Some ''GOLANG PACKAGE ${package}'') None False (Some go_pool)
                          False None None None s;
                    s = generate_rule c ''gocommand''
                          (prefix @ '' build -o '' @ out_relative
                           @ ''${out} ${extra_goflags} ${package}'')
                          (Some ''GOLANG COMMAND ${package}'') None False (Some go_pool)
                          False None None None s;
                    s = generate_rule c ''gotest''
                          (prefix @ '' test -c -o '' @ out_relative
                           @ ''${out} ${extra_goflags} ${package}'')
                          (Some ''GOLANG TEST ${package}'') None False (Some go_pool)
                          False None None None s
                in Inr s)
      else Inr s)"

definition generate_shell_rules :: "config \<Rightarrow> gen_state \<Rightarrow> gen_state" where
  "generate_shell_rules c s =
     (let s = generate_rule c ''shelltest'' (toolchain_command c ''shell_test'' [] [])
                (Some ''SHELL TEST ${out}'') None False None False None None None s;
          args = ''${out} ${in} ${testdata}'';
          s = generate_rule c ''shelltestdata'' (toolchain_command c ''shell_testdata'' [] args)
                (Some ''SHELL TEST DATA ${out}'') None False None False None None None s
      in s)"

definition generate_lex_yacc_rules :: "config \<Rightarrow> gen_state \<Rightarrow> gen_state" where
  "generate_lex_yacc_rules c s =
     (let s = generate_rule c ''lex'' ''flex ${lexflags} -o ${out} ${in}''
                (Some ''LEX ${in}'') None False None False None None None s;
          s = generate_rule c ''yacc'' ''bison ${yaccflags} -o ${out} ${in}''
                (Some ''YACC ${in}'') None False None False None None None s
      in s)"

definition generate_package_rules :: "config \<Rightarrow> gen_state \<Rightarrow> gen_state" where
  "generate_package_rules c s =
     (let args = ''${out} ${in} ${entries}'';
          s = generate_rule c ''package'' (toolchain_command c ''package'' [] args)
                (Some ''PACKAGE ${out}'') None False None False None None None s;
          s = generate_rule c ''package_tar''
                ''tar -c -f ${out} ${tarflags} -C ${packageroot} ${entries}''
                (Some ''TAR ${out}'') None False None False None None None s;
          s = generate_rule c ''package_zip''
                (''cd ${packageroot} && zip -q temp_archive.zip ${entries} && ''
                 @ ''cd - && mv ${packageroot}/temp_archive.zip ${out}'')
                (Some ''ZIP ${out}'') None False None False None None None s
      in s)"

definition generate_version_rules :: "config \<Rightarrow> gen_state \<Rightarrow> gen_state" where
  \<open>generate_version_rules c s =
     (case load_scm c of (revision, url) \<Rightarrow>
        let args = ''${out} ${revision} ${url} ${profile} "${compiler}"'';
            s = generate_rule c ''scm'' (toolchain_command c ''scm'' [] args)
                  (Some ''SCM ${out}'') None False None False None None None s;
            scm = path_join (self_build_dir c) [''scm.cc''];
            s = add_rule (''build '' @ scm @ '': scm\<newline>''
                          @ ''  revision = '' @ revision @ ''\<newline>''
                          @ ''  url = '' @ url @ ''\<newline>''
                          @ ''  profile = '' @ options_profile c @ ''\<newline>''
                          @ ''  compiler = '' @ (self_cc c @ '' '' @ self_cc_version c)
                          @ ''\<newline>'') s;
            s = add_rule (''build '' @ (scm @ ''.o'') @ '': cxx '' @ scm @ ''\<newline>''
                          @ ''  cppflags = -w -O2\<newline>''
                          @ ''  cxx_warnings =\<newline>'') s
        in s)\<close>

text \<open>\<open>generate\<close> returns \<open>self.rules_buf\<close>: the buffer of the state it ends in.\<close>

definition generate :: "config \<Rightarrow> gen_state \<Rightarrow> result" where
  "generate c s =
     (let s = generate_file_header c s;
          s = generate_common_rules c s;
          s = generate_cc_rules c s
      in (case generate_proto_rules c s of
            Inl e \<Rightarrow> Inl e
          | Inr s \<Rightarrow>
              let s = generate_resource_rules c s;
                  s = generate_java_scala_rules c s;
                  s = generate_thrift_rules c s;
                  s = generate_python_rules c s
              in (case generate_go_rules c s of
                    Inl e \<Rightarrow> Inl e
                  | Inr s \<Rightarrow>
                      let s = generate_shell_rules c s;
                          s = generate_lex_yacc_rules c s;
                          s = generate_package_rules c s;
                          s = generate_version_rules c s
                      in Inr s)))"

text \<open>
  A new \<open>NinjaScriptHeaderGenerator\<close>: an empty buffer and no rule names. Every list
  object is empty unless the state is given others.
\<close>

definition init_state :: "(string \<rightharpoonup> string) \<Rightarrow> gen_state" where
  "init_state env =
     \<lparr>rules_buf = [], all_rule_names = {||}, os_environ = env, py_lists = (\<lambda>r. [])\<rparr>"

section \<open>Reading the manifest\<close>

text \<open>
  The buffer is a list of text elements, one per call of \<open>_add_rule\<close>. The functions below
  read it back: what a routine appended, the field lines that follow the element
  \<open>rule <name>\<close>, whether a field line with a given key is among them, and the pool
  declarations.
\<close>

definition emitted :: "gen_state \<Rightarrow> gen_state \<Rightarrow> string list" where
  "emitted s s' = drop (length (rules_buf s)) (rules_buf s')"

fun rule_fields :: "string \<Rightarrow> string list \<Rightarrow> string list" where
  "rule_fields name [] = []"
| "rule_fields name (l # ls) =
     (if l = ''rule '' @ name @ ''\<newline>''
      then takeWhile (\<lambda>x. startswith x ''  '') ls
      else rule_fields name ls)"

definition field_lines :: "string \<Rightarrow> string list \<Rightarrow> string list" where
  "field_lines key ls = filter (\<lambda>l. startswith l (''  '' @ key @ '' = '')) ls"

definition has_field :: "string \<Rightarrow> string list \<Rightarrow> bool" where
  "has_field key ls = (field_lines key ls \<noteq> [])"

text \<open>The command of a rule: its command line without the key and the line's end.\<close>

definition rule_command :: "string \<Rightarrow> string list \<Rightarrow> string" where
  "rule_command name buf =
     (case field_lines ''command'' (rule_fields name buf) of
        [] \<Rightarrow> []
      | l # ls \<Rightarrow> butlast (drop (length ''  command = '') l))"

definition pool_decls :: "string list \<Rightarrow> string list" where
  "pool_decls buf = filter (\<lambda>l. startswith l ''pool '') buf"

text \<open>The name a pool declaration declares: the text between \<open>pool\<close> and the line's end.\<close>

definition pool_name :: "string \<Rightarrow> string" where
  "pool_name l = takeWhile (\<lambda>ch. ch \<noteq> CHR 0x0A) (drop 5 l)"

text \<open>The state a run ends in, returned or reached at the raise.\<close>

definition final_state :: "result \<Rightarrow> gen_state" where
  "final_state r = (case r of Inl (e, s) \<Rightarrow> s | Inr s \<Rightarrow> s)"

definition raised :: "result \<Rightarrow> error option" where
  "raised r = (case r of Inl (e, s) \<Rightarrow> Some e | Inr s \<Rightarrow> None)"

text \<open>The names of the rules in a buffer, in order: one for each element \<open>rule <name>\<close>.\<close>

definition rule_names :: "string list \<Rightarrow> string list" where
  "rule_names buf = map (\<lambda>l. butlast (drop 5 l)) (filter (\<lambda>l. startswith l ''rule '') buf)"

text \<open>
  A result with the process environment and the list objects of its state replaced: the
  two parts of the state that live outside the generator object.
\<close>

definition with_outside ::
  "(string \<rightharpoonup> string) \<Rightarrow> (ref \<Rightarrow> string list) \<Rightarrow> result \<Rightarrow> result" where
  "with_outside e h r =
     (case r of
        Inl (x, s) \<Rightarrow> Inl (x, s\<lparr>os_environ := e, py_lists := h\<rparr>)
      | Inr s \<Rightarrow> Inr (s\<lparr>os_environ := e, py_lists := h\<rparr>))"

text \<open>
  What \<open>generate_cc_warning_vars\<close> does to the list objects, the two lists it prints, and
  what \<open>get_warning_flags\<close> returned to it: the three references and the elements of the
  three lists at the return.
\<close>

definition warning_lists_after :: "config \<Rightarrow> (ref \<Rightarrow> string list) \<Rightarrow> (ref \<Rightarrow> string list)" where
  "warning_lists_after c h =
     (case get_warning_flags c h of
        ((warnings, cxx_warnings, c_warnings), objs) \<Rightarrow>
          let objs = objs(c_warnings := objs c_warnings @ objs warnings);
              objs = objs(cxx_warnings := objs cxx_warnings @ objs warnings)
          in objs)"

definition printed_warnings :: "config \<Rightarrow> (ref \<Rightarrow> string list) \<Rightarrow> string list \<times> string list" where
  "printed_warnings c h =
     (case get_warning_flags c h of
        ((warnings, cxx_warnings, c_warnings), objs) \<Rightarrow>
          (warning_lists_after c h c_warnings, warning_lists_after c h cxx_warnings))"



text \<open>The elements one call of \<open>generate_rule\<close> appends.\<close>

definition flag_lines :: "string \<Rightarrow> bool \<Rightarrow> string list" where
  "flag_lines l b = (if b then [l @ ''\<newline>''] else [])"

definition append_lines :: "string list \<Rightarrow> gen_state \<Rightarrow> gen_state" where
  "append_lines ls s = s\<lparr>rules_buf := rules_buf s @ ls\<rparr>"

definition rule_block ::
  "config \<Rightarrow> string \<Rightarrow> string \<Rightarrow> string option \<Rightarrow> string option \<Rightarrow> bool \<Rightarrow> string option \<Rightarrow>
   bool \<Rightarrow> string option \<Rightarrow> string option \<Rightarrow> string option \<Rightarrow> string list" where
  "rule_block c name command description depfile generator pool restat rspfile
       rspfile_content deps =
     [''rule '' @ name @ ''\<newline>'', ''  command = '' @ command @ ''\<newline>'']
     @ flag_lines (''  description = '' @ console_colored c (the description) ''dimpurple'')
         (truthy description)
     @ flag_lines (''  depfile = '' @ the depfile) (truthy depfile)
     @ flag_lines ''  generator = 1'' generator
     @ flag_lines (''  pool = '' @ the pool) (truthy pool)
     @ flag_lines ''  restat = 1'' restat
     @ flag_lines (''  rspfile = '' @ the rspfile) (truthy rspfile)
     @ flag_lines (''  rspfile_content = '' @ the rspfile_content) (truthy rspfile_content)
     @ flag_lines (''  deps = '' @ the deps) (truthy deps)"

text \<open>The field lines of a rule block: the block without its first line.\<close>

definition block_fields ::
  "config \<Rightarrow> string \<Rightarrow> string option \<Rightarrow> string option \<Rightarrow> bool \<Rightarrow> string option \<Rightarrow>
   bool \<Rightarrow> string option \<Rightarrow> string option \<Rightarrow> string option \<Rightarrow> string list" where
  "block_fields c cmd d df g p r rf rc dp = tl (rule_block c [] cmd d df g p r rf rc dp)"

text \<open>
  A configuration with every optional setting unset, for the concrete instances. Its
  \<open>get_warning_flags\<close> hands out the same three list objects at every call.
\<close>

definition minimal_config :: config where
  "minimal_config =
     \<lparr>self_build_dir = ''build64_release'', self_blade_path = ''/opt/blade'',
      self_cc = ''gcc'', self_cc_version = ''9.3.0'', options_profile = ''release'',
      ccache_installed = False, blade_root_dir = ''/w'', sys_executable = ''python'',
      os_getcwd = ''/w'', parallel_jobs_num = 8, console_colored = (\<lambda>text color. text),
      get_warning_flags = (\<lambda>objs. ((0, 1, 2), objs)), get_flags_except_warning = ([], []),
      load_scm = (''1'', ''url''),
      cc_config_cflags = [], cc_config_cxxflags = [], cc_config_cppflags = [],
      cc_config_linkflags = [], cc_config_extra_incs = [], cc_config_securecc = ''securecc'',
      cc_config_header_inclusion_dependencies = False, cc_library_config_arflags = [''rcs''],
      link_config_link_jobs = 0,
      proto_library_config_protoc = ''protoc'', proto_library_config_protoc_java = [],
      proto_library_config_protobuf_incs = [], proto_library_config_protobuf_java_incs = [],
      proto_library_config_protoc_go_plugin = [], proto_library_config_protobuf_go_path = [],
      proto_library_config_protoc_go_subplugins = [],
      go_config_go_home = [], go_config_go = [], go_config_go_module_enabled = False,
      go_config_go_module_relpath = [],
      java_config_java_home = [], java_config_version = ''8'',
      java_config_source_version = None, java_config_target_version = None,
      java_test_config_jacoco_home = [], java_binary_config_one_jar_boot_jar = ''boot.jar'',
      scala_config_scala_home = [], thrift_config_thrift_incs = [],
      thrift_config_thrift_gen_params = ''cpp'', thrift_config_thrift = ''thrift''\<rparr>"

section \<open>Basic facts\<close>

lemma startswith_simps [simp]:
  "startswith s [] = True"
  "startswith [] (p # ps) = False"
  "startswith (x # xs) (p # ps) = (x = p \<and> startswith xs ps)"
  by (auto simp: startswith_def)

lemma startswith_append [simp]: "startswith (u @ x) (u @ y) = startswith x y"
  by (simp add: startswith_def)

lemma add_rule_simps [simp]:
  "rules_buf (add_rule r s) = rules_buf s @ [r @ ''\<newline>'']"
  "all_rule_names (add_rule r s) = all_rule_names s"
  "os_environ (add_rule r s) = os_environ s"
  "py_lists (add_rule r s) = py_lists s"
  by (simp_all add: add_rule_def)

lemma flag_step:
  "(if b then add_rule l s else s) = append_lines (flag_lines l b) s"
  by (simp add: add_rule_def flag_lines_def append_lines_def)

lemma add_rule_append: "add_rule r s = append_lines [r @ ''\<newline>''] s"
  by (simp add: add_rule_def append_lines_def)

lemma append_lines_append: "append_lines ys (append_lines xs s) = append_lines (xs @ ys) s"
  by (simp add: append_lines_def)

lemma append_lines_names:
  "append_lines xs (s\<lparr>all_rule_names := a\<rparr>) = (append_lines xs s)\<lparr>all_rule_names := a\<rparr>"
  by (simp add: append_lines_def)

lemma generate_rule_eq:
  "generate_rule c n cmd d df g p r rf rc dp s =
     (append_lines (rule_block c n cmd d df g p r rf rc dp) s)
       \<lparr>all_rule_names := finsert n (all_rule_names s)\<rparr>"
  unfolding generate_rule_def Let_def flag_step
  unfolding add_rule_append append_lines_append append_lines_names rule_block_def
  by (simp add: append_lines_def)

lemma generate_rule_simps [simp]:
  "rules_buf (generate_rule c n cmd d df g p r rf rc dp s) =
     rules_buf s @ rule_block c n cmd d df g p r rf rc dp"
  "all_rule_names (generate_rule c n cmd d df g p r rf rc dp s) = finsert n (all_rule_names s)"
  "os_environ (generate_rule c n cmd d df g p r rf rc dp s) = os_environ s"
  "py_lists (generate_rule c n cmd d df g p r rf rc dp s) = py_lists s"
  by (simp_all add: generate_rule_eq append_lines_def)

lemma field_lines_simps:
  "field_lines key [] = []"
  "field_lines key (x # xs) =
     (if startswith x (''  '' @ key @ '' = '') then [x] else []) @ field_lines key xs"
  "field_lines key (xs @ ys) = field_lines key xs @ field_lines key ys"
  "field_lines key (flag_lines l b) =
     (if b \<and> startswith (l @ ''\<newline>'') (''  '' @ key @ '' = '') then [l @ ''\<newline>''] else [])"
  by (simp_all add: field_lines_def flag_lines_def)

lemma emitted_generate_rule:
  "emitted s (generate_rule c n cmd d df g p r rf rc dp s) = rule_block c n cmd d df g p r rf rc dp"
  by (simp add: emitted_def)

lemma rule_block_field_lines:
  "field_lines ''description'' (rule_block c n cmd d df g p r rf rc dp) =
     (if truthy d
      then [''  description = '' @ console_colored c (the d) ''dimpurple'' @ ''\<newline>'']
      else [])"
  "field_lines ''depfile'' (rule_block c n cmd d df g p r rf rc dp) =
     (if truthy df then [''  depfile = '' @ the df @ ''\<newline>''] else [])"
  "field_lines ''generator'' (rule_block c n cmd d df g p r rf rc dp) =
     (if g then [''  generator = 1\<newline>''] else [])"
  "field_lines ''pool'' (rule_block c n cmd d df g p r rf rc dp) =
     (if truthy p then [''  pool = '' @ the p @ ''\<newline>''] else [])"
  "field_lines ''restat'' (rule_block c n cmd d df g p r rf rc dp) =
     (if r then [''  restat = 1\<newline>''] else [])"
  "field_lines ''rspfile'' (rule_block c n cmd d df g p r rf rc dp) =
     (if truthy rf then [''  rspfile = '' @ the rf @ ''\<newline>''] else [])"
  "field_lines ''rspfile_content'' (rule_block c n cmd d df g p r rf rc dp) =
     (if truthy rc then [''  rspfile_content = '' @ the rc @ ''\<newline>''] else [])"
  "field_lines ''deps'' (rule_block c n cmd d df g p r rf rc dp) =
     (if truthy dp then [''  deps = '' @ the dp @ ''\<newline>''] else [])"
  by (simp_all add: rule_block_def field_lines_simps)

lemma count_list_flag_lines:
  "count_list (flag_lines (CHR '' '' # l) b) (CHR ''r'' # x) = 0"
  by (simp add: flag_lines_def)

lemma count_list_rule_block:
  "count_list (rule_block c n cmd d df g p r rf rc dp)
     (CHR ''r'' # CHR ''u'' # CHR ''l'' # CHR ''e'' # CHR '' '' # n @ ''\<newline>'') = Suc 0"
  by (simp add: rule_block_def count_list_flag_lines)

section \<open>The delegated command\<close>

text \<open>
  Claim C9. For every step name, the command built by \<open>_toolchain_command\<close> is, in this
  order: the assignment of \<open>PYTHONPATH\<close> from the path of the builder tool; the step's own
  environment prefix when it is not empty; the call of the helper module
  \<open>blade.toolchain\<close> by the interpreter with the step name; and the step's positional
  arguments when some are given, the default arguments \<open>${out} ${in}\<close> otherwise. The
  parts are separated by single spaces.
\<close>

theorem toolchain_command_shape:
  "toolchain_command c builder prefix suffix =
     ''PYTHONPATH='' @ self_blade_path c @ '':$$PYTHONPATH''
     @ (if prefix \<noteq> [] then '' '' @ prefix else [])
     @ '' '' @ sys_executable c @ '' -m blade.toolchain '' @ builder
     @ '' '' @ (if suffix \<noteq> [] then suffix else ''${out} ${in}'')"
  by (simp add: toolchain_command_def Let_def)

section \<open>One rule block\<close>

text \<open>
  Claim C7. \<open>generate_rule\<close> appends one block to the buffer and leaves the elements before
  it alone. The block starts with the line of the rule name and the line of the command.
  A line for an optional field (description, depfile, generator, pool, restat, rspfile,
  rspfile_content, deps) is in the block if and only if a non-empty value was given for the
  field (for the two flags: if and only if the flag is set); a field that is absent or
  empty gives no line.
\<close>

theorem generate_rule_optional_fields:
  "rules_buf (generate_rule c n cmd d df g p r rf rc dp s)
     = rules_buf s @ emitted s (generate_rule c n cmd d df g p r rf rc dp s)
   \<and> take 2 (emitted s (generate_rule c n cmd d df g p r rf rc dp s))
       = [''rule '' @ n @ ''\<newline>'', ''  command = '' @ cmd @ ''\<newline>'']
   \<and> has_field ''description'' (emitted s (generate_rule c n cmd d df g p r rf rc dp s)) = truthy d
   \<and> has_field ''depfile'' (emitted s (generate_rule c n cmd d df g p r rf rc dp s)) = truthy df
   \<and> has_field ''generator'' (emitted s (generate_rule c n cmd d df g p r rf rc dp s)) = g
   \<and> has_field ''pool'' (emitted s (generate_rule c n cmd d df g p r rf rc dp s)) = truthy p
   \<and> has_field ''restat'' (emitted s (generate_rule c n cmd d df g p r rf rc dp s)) = r
   \<and> has_field ''rspfile'' (emitted s (generate_rule c n cmd d df g p r rf rc dp s)) = truthy rf
   \<and> has_field ''rspfile_content'' (emitted s (generate_rule c n cmd d df g p r rf rc dp s))
       = truthy rc
   \<and> has_field ''deps'' (emitted s (generate_rule c n cmd d df g p r rf rc dp s)) = truthy dp"
  unfolding emitted_generate_rule has_field_def rule_block_field_lines
  by (simp add: rule_block_def)

section \<open>Registering rule names\<close>

text \<open>
  Claim C3, as the code has it. \<open>generate_rule\<close> has no failing branch: it registers any
  name, fresh or not. The names are kept in a set, so a name registered twice is held
  once: the number of names grows by one for a fresh name and stays for a registered one.
  Registering a name again appends one more block \<open>rule <name>\<close> to the buffer; nothing
  is raised.
\<close>

theorem generate_rule_registers:
  "all_rule_names (generate_rule c n cmd d df g p r rf rc dp s) = finsert n (all_rule_names s)
   \<and> fcard (all_rule_names (generate_rule c n cmd d df g p r rf rc dp s))
       = (if n |\<in>| all_rule_names s then fcard (all_rule_names s)
          else Suc (fcard (all_rule_names s)))
   \<and> count_list (rules_buf (generate_rule c n cmd d df g p r rf rc dp s))
         (''rule '' @ n @ ''\<newline>'')
       = Suc (count_list (rules_buf s) (''rule '' @ n @ ''\<newline>''))"
  by (simp add: count_list_rule_block fcard_finsert_if)

text \<open>
  The claim as stated fails: registering \<open>stamp\<close> twice in a new generator returns a
  state whose buffer holds the block \<open>rule stamp\<close> twice.
\<close>

theorem duplicate_rule_counterexample:
  "count_list
     (rules_buf
        (generate_rule minimal_config ''stamp'' ''touch ${out}'' (Some ''STAMP ${out}'')
           None False None False None None None
           (generate_rule minimal_config ''stamp'' ''touch ${out}'' (Some ''STAMP ${out}'')
              None False None False None None None (init_state Map.empty))))
     ''rule stamp\<newline>'' = 2
   \<and> all_rule_names
        (generate_rule minimal_config ''stamp'' ''touch ${out}'' (Some ''STAMP ${out}'')
           None False None False None None None
           (generate_rule minimal_config ''stamp'' ''touch ${out}'' (Some ''STAMP ${out}'')
              None False None False None None None (init_state Map.empty)))
       = {|''stamp''|}"
  by (simp add: init_state_def rule_block_def flag_lines_def)

section \<open>Facts about rule blocks\<close>

lemma rule_fields_spaced:
  "list_all (\<lambda>x. startswith x '' '') xs \<Longrightarrow> rule_fields n (xs @ rest) = rule_fields n rest"
  by (induction xs) (auto simp: startswith_def)

lemma takeWhile_spaced:
  "list_all (\<lambda>x. startswith x ''  '') xs \<Longrightarrow>
   takeWhile (\<lambda>x. startswith x ''  '') (xs @ rest) = xs @ takeWhile (\<lambda>x. startswith x ''  '') rest"
  by (induction xs) auto

lemma rule_block_split:
  "rule_block c n cmd d df g p r rf rc dp =
     (''rule '' @ n @ ''\<newline>'') # block_fields c cmd d df g p r rf rc dp"
  by (simp add: rule_block_def block_fields_def)

lemma block_fields_spaced:
  "list_all (\<lambda>x. startswith x ''  '') (block_fields c cmd d df g p r rf rc dp)"
  "list_all (\<lambda>x. startswith x '' '') (block_fields c cmd d df g p r rf rc dp)"
  by (simp_all add: block_fields_def rule_block_def flag_lines_def)

lemma rule_fields_block:
  "rule_fields n (rule_block c n' cmd d df g p r rf rc dp @ rest) =
     (if n' = n
      then block_fields c cmd d df g p r rf rc dp @ takeWhile (\<lambda>x. startswith x ''  '') rest
      else rule_fields n rest)"
  by (simp add: rule_block_split takeWhile_spaced block_fields_spaced rule_fields_spaced)

lemma rule_fields_other:
  "\<not> startswith x ''r'' \<Longrightarrow> rule_fields n (x # rest) = rule_fields n rest"
  by (auto simp: startswith_def)

lemma takeWhile_block:
  "takeWhile (\<lambda>x. startswith x ''  '') (rule_block c n cmd d df g p r rf rc dp @ rest) = []"
  by (simp add: rule_block_split)

lemma takeWhile_other:
  "\<not> startswith x '' '' \<Longrightarrow> takeWhile (\<lambda>x. startswith x ''  '') (x # rest) = []"
  by (cases x) auto

lemma block_fields_field_lines:
  "field_lines ''command'' (block_fields c cmd d df g p r rf rc dp) =
     [''  command = '' @ cmd @ ''\<newline>'']"
  "field_lines ''description'' (block_fields c cmd d df g p r rf rc dp) =
     (if truthy d
      then [''  description = '' @ console_colored c (the d) ''dimpurple'' @ ''\<newline>'']
      else [])"
  "field_lines ''depfile'' (block_fields c cmd d df g p r rf rc dp) =
     (if truthy df then [''  depfile = '' @ the df @ ''\<newline>''] else [])"
  "field_lines ''generator'' (block_fields c cmd d df g p r rf rc dp) =
     (if g then [''  generator = 1\<newline>''] else [])"
  "field_lines ''pool'' (block_fields c cmd d df g p r rf rc dp) =
     (if truthy p then [''  pool = '' @ the p @ ''\<newline>''] else [])"
  "field_lines ''restat'' (block_fields c cmd d df g p r rf rc dp) =
     (if r then [''  restat = 1\<newline>''] else [])"
  "field_lines ''rspfile'' (block_fields c cmd d df g p r rf rc dp) =
     (if truthy rf then [''  rspfile = '' @ the rf @ ''\<newline>''] else [])"
  "field_lines ''rspfile_content'' (block_fields c cmd d df g p r rf rc dp) =
     (if truthy rc then [''  rspfile_content = '' @ the rc @ ''\<newline>''] else [])"
  "field_lines ''deps'' (block_fields c cmd d df g p r rf rc dp) =
     (if truthy dp then [''  deps = '' @ the dp @ ''\<newline>''] else [])"
  by (simp_all add: block_fields_def rule_block_def field_lines_simps)

lemma rule_command_fields:
  "rule_fields n buf = block_fields c cmd d df g p r rf rc dp @ tl_fields \<Longrightarrow> rule_command n buf = cmd"
proof -
  assume a: "rule_fields n buf = block_fields c cmd d df g p r rf rc dp @ tl_fields"
  have "butlast (drop (length ''  command = '') (''  command = '' @ cmd @ ''\<newline>'')) = cmd"
    by (simp add: butlast_append)
  then show ?thesis
    unfolding rule_command_def a field_lines_simps(3) block_fields_field_lines(1)
    by simp
qed

lemma rule_command_block:
  "rule_command n (rule_block c n' cmd d df g p r rf rc dp @ rest) =
     (if n' = n then cmd else rule_command n rest)"
proof (cases "n' = n")
  case True
  then show ?thesis
    using rule_command_fields [OF rule_fields_block [of n c n cmd d df g p r rf rc dp rest, simplified]]
    by simp
next
  case False
  then show ?thesis
    by (simp add: rule_command_def rule_fields_block)
qed

lemma rule_command_other:
  "\<not> startswith x ''r'' \<Longrightarrow> rule_command n (x # rest) = rule_command n rest"
  using rule_fields_other [of x n rest] by (simp add: rule_command_def del: rule_fields.simps)

lemma rule_command_block':
  "rule_command n (rule_block c n' cmd d df g p r rf rc dp) = (if n' = n then cmd else [])"
proof -
  have "rule_command n [] = []"
    by (simp add: rule_command_def field_lines_def)
  with rule_command_block [of n c n' cmd d df g p r rf rc dp "[]"] show ?thesis
    by simp
qed

lemma generate_rule_cong:
  "s = s' \<Longrightarrow> generate_rule c n cmd d df g p r rf rc dp s = generate_rule c n cmd d df g p r rf rc dp s'"
  by simp

lemma rule_block_cong:
  "n = n' \<Longrightarrow> rule_block c n cmd d df g p r rf rc dp = rule_block c n' cmd d df g p r rf rc dp"
  by simp

lemma block_fields_cong:
  "c = c' \<Longrightarrow> block_fields c cmd d df g p r rf rc dp = block_fields c' cmd d df g p r rf rc dp"
  by simp

lemma takeWhile_block':
  "takeWhile (\<lambda>x. startswith x ''  '') (rule_block c n cmd d df g p r rf rc dp) = []"
  by (simp add: rule_block_split)

lemma if_environ:
  "(if b then s\<lparr>os_environ := e\<rparr> else s) = s\<lparr>os_environ := (if b then e else os_environ s)\<rparr>"
  by simp

lemma pool_decls_simps:
  "pool_decls [] = []"
  "pool_decls (x # xs) = (if startswith x ''pool '' then [x] else []) @ pool_decls xs"
  "pool_decls (xs @ ys) = pool_decls xs @ pool_decls ys"
  "pool_decls (rule_block c n cmd d df g p r rf rc dp) = []"
  by (simp_all add: pool_decls_def rule_block_def flag_lines_def)

lemmas block_simps = rule_fields_block rule_fields_other takeWhile_block takeWhile_block' takeWhile_other
      rule_command_block'
      block_fields_field_lines rule_command_block rule_command_other pool_decls_simps
      field_lines_simps(1,3)

lemmas block_congs = generate_rule_cong rule_block_cong block_fields_cong

section \<open>The rules of the C and C++ toolchain\<close>

lemma generate_cc_warning_vars_eq:
  "generate_cc_warning_vars c s =
     add_rule (''c_warnings = '' @ join_str '' '' (fst (printed_warnings c (py_lists s)))
               @ ''\<newline>''
               @ ''cxx_warnings = '' @ join_str '' '' (snd (printed_warnings c (py_lists s)))
               @ ''\<newline>'')
       (s\<lparr>py_lists := warning_lists_after c (py_lists s)\<rparr>)"
proof -
  obtain w x cw h where r: "get_warning_flags c (py_lists s) = ((w, x, cw), h)"
  proof (cases "get_warning_flags c (py_lists s)")
    case (Pair t l)
    then show ?thesis using that by (cases t) auto
  qed
  show ?thesis
    by (simp add: generate_cc_warning_vars_def printed_warnings_def warning_lists_after_def
          r Let_def)
qed

lemma cc_rules_environ:
  "os_environ (generate_cc_rules c s) =
     (if ccache_installed c
      then (os_environ s)(''CCACHE_BASEDIR'' \<mapsto> blade_root_dir c,
                          ''CCACHE_NOHASHDIR'' \<mapsto> ''true'')
      else os_environ s)"
  by (simp add: generate_cc_rules_def Let_def generate_cc_warning_vars_eq split: prod.splits)

lemma cc_rules_compilers:
  "startswith (rule_command ''cc'' (emitted s (generate_cc_rules c s)))
     ((if ccache_installed c then ''ccache '' else [])
      @ environ_get (os_environ s) ''CC'' ''gcc'' @ '' -o ${out} '')
   \<and> startswith (rule_command ''cxx'' (emitted s (generate_cc_rules c s)))
     ((if ccache_installed c then ''ccache '' else [])
      @ environ_get (os_environ s) ''CXX'' ''g++'' @ '' -o ${out} '')"
  unfolding generate_cc_rules_def Let_def generate_cc_warning_vars_eq
  apply (cases "ccache_installed c"; cases "cc_config_header_inclusion_dependencies c";
         cases "link_config_link_jobs c = 0")
  apply (simp_all add: emitted_def block_simps if_environ cong: block_congs split del: if_split)
  done

lemma cc_rules_dependency_fields:
  "field_lines ''depfile'' (rule_fields ''cc'' (emitted s (generate_cc_rules c s)))
     = [''  depfile = ${out}.d\<newline>'']
   \<and> field_lines ''deps'' (rule_fields ''cc'' (emitted s (generate_cc_rules c s)))
     = [''  deps = gcc\<newline>'']
   \<and> field_lines ''depfile'' (rule_fields ''cxx'' (emitted s (generate_cc_rules c s)))
     = [''  depfile = ${out}.d\<newline>'']
   \<and> field_lines ''deps'' (rule_fields ''cxx'' (emitted s (generate_cc_rules c s)))
     = [''  deps = gcc\<newline>'']
   \<and> field_lines ''depfile'' (rule_fields ''securecccompile'' (emitted s (generate_cc_rules c s)))
     = []
   \<and> field_lines ''deps'' (rule_fields ''securecccompile'' (emitted s (generate_cc_rules c s)))
     = []"
  unfolding generate_cc_rules_def Let_def generate_cc_warning_vars_eq
  apply (cases "cc_config_header_inclusion_dependencies c";
         cases "link_config_link_jobs c = 0")
  apply (simp_all add: emitted_def block_simps if_environ cong: block_congs split del: if_split)
  done

lemma cc_rules_link_pool:
  "pool_decls (emitted s (generate_cc_rules c s))
     = (if link_config_link_jobs c \<noteq> 0
        then [''pool link_pool\<newline>  depth = ''
              @ str_int (min (link_config_link_jobs c) (parallel_jobs_num c)) @ ''\<newline>'']
        else [])
   \<and> field_lines ''pool'' (rule_fields ''link'' (emitted s (generate_cc_rules c s)))
     = (if link_config_link_jobs c \<noteq> 0 then [''  pool = link_pool\<newline>''] else [])
   \<and> field_lines ''pool'' (rule_fields ''solink'' (emitted s (generate_cc_rules c s)))
     = (if link_config_link_jobs c \<noteq> 0 then [''  pool = link_pool\<newline>''] else [])"
  unfolding generate_cc_rules_def Let_def generate_cc_warning_vars_eq
  apply (cases "cc_config_header_inclusion_dependencies c";
         cases "link_config_link_jobs c = 0")
  apply (simp_all add: emitted_def block_simps if_environ cong: block_congs split del: if_split)
  done

text \<open>
  Claim C10. When ccache is installed, \<open>generate_cc_rules\<close> sets \<open>CCACHE_BASEDIR\<close> to the
  workspace root and \<open>CCACHE_NOHASHDIR\<close> to \<open>true\<close> in the process environment and changes
  no other variable, and the commands of the rules \<open>cc\<close> and \<open>cxx\<close> start with \<open>ccache\<close>
  followed by the compiler (\<open>CC\<close> or \<open>gcc\<close>, \<open>CXX\<close> or \<open>g++\<close>). When ccache is not
  installed, the routine leaves the process environment as it was and the commands start
  with the compiler.
\<close>

theorem ccache_side_effect:
  "os_environ (generate_cc_rules c s) =
     (if ccache_installed c
      then (os_environ s)(''CCACHE_BASEDIR'' \<mapsto> blade_root_dir c,
                          ''CCACHE_NOHASHDIR'' \<mapsto> ''true'')
      else os_environ s)
   \<and> startswith (rule_command ''cc'' (emitted s (generate_cc_rules c s)))
     ((if ccache_installed c then ''ccache '' else [])
      @ environ_get (os_environ s) ''CC'' ''gcc'' @ '' -o ${out} '')
   \<and> startswith (rule_command ''cxx'' (emitted s (generate_cc_rules c s)))
     ((if ccache_installed c then ''ccache '' else [])
      @ environ_get (os_environ s) ''CXX'' ''g++'' @ '' -o ${out} '')"
  using cc_rules_environ [of c s] cc_rules_compilers [of s c] by simp

text \<open>
  Claim C2, as the code has it. No setting turns dependency-file tracking on or off: the
  code reads none. For every configuration the rules \<open>cc\<close> and \<open>cxx\<close> carry the lines
  \<open>depfile = ${out}.d\<close> and \<open>deps = gcc\<close>, and the rule \<open>securecccompile\<close> carries
  neither field.
\<close>

theorem cc_rules_always_track_dependencies:
  "field_lines ''depfile'' (rule_fields ''cc'' (emitted s (generate_cc_rules c s)))
     = [''  depfile = ${out}.d\<newline>'']
   \<and> field_lines ''deps'' (rule_fields ''cc'' (emitted s (generate_cc_rules c s)))
     = [''  deps = gcc\<newline>'']
   \<and> field_lines ''depfile'' (rule_fields ''cxx'' (emitted s (generate_cc_rules c s)))
     = [''  depfile = ${out}.d\<newline>'']
   \<and> field_lines ''deps'' (rule_fields ''cxx'' (emitted s (generate_cc_rules c s)))
     = [''  deps = gcc\<newline>'']
   \<and> field_lines ''depfile'' (rule_fields ''securecccompile'' (emitted s (generate_cc_rules c s)))
     = []
   \<and> field_lines ''deps'' (rule_fields ''securecccompile'' (emitted s (generate_cc_rules c s)))
     = []"
  by (rule cc_rules_dependency_fields)

text \<open>
  The claim as stated fails: in the configuration with every optional setting unset, the
  rule \<open>cc\<close> of a new generator has a \<open>depfile\<close> line and a \<open>deps\<close> line.
\<close>

theorem depfile_present_counterexample:
  "has_field ''depfile''
     (rule_fields ''cc'' (rules_buf (generate_cc_rules minimal_config (init_state Map.empty))))
   \<and> has_field ''deps''
     (rule_fields ''cc'' (rules_buf (generate_cc_rules minimal_config (init_state Map.empty))))"
  using cc_rules_dependency_fields [of "init_state Map.empty" minimal_config]
  by (simp add: has_field_def emitted_def init_state_def)

text \<open>
  Claim C4. When \<open>link_jobs\<close> is set to \<open>n\<close> and the available parallelism is \<open>m\<close>,
  \<open>generate_cc_rules\<close> declares exactly one pool, \<open>link_pool\<close> with depth \<open>min n m\<close>, and the
  rules \<open>link\<close> and \<open>solink\<close> both carry the line \<open>pool = link_pool\<close>. When \<open>link_jobs\<close> is
  not set, the routine declares no pool and neither rule has a \<open>pool\<close> line.
\<close>

theorem link_pool_depth:
  "pool_decls (emitted s (generate_cc_rules c s))
     = (if link_config_link_jobs c \<noteq> 0
        then [''pool link_pool\<newline>  depth = ''
              @ str_int (min (link_config_link_jobs c) (parallel_jobs_num c)) @ ''\<newline>'']
        else [])
   \<and> field_lines ''pool'' (rule_fields ''link'' (emitted s (generate_cc_rules c s)))
     = (if link_config_link_jobs c \<noteq> 0 then [''  pool = link_pool\<newline>''] else [])
   \<and> field_lines ''pool'' (rule_fields ''solink'' (emitted s (generate_cc_rules c s)))
     = (if link_config_link_jobs c \<noteq> 0 then [''  pool = link_pool\<newline>''] else [])"
  by (rule cc_rules_link_pool)

text \<open>The instances of the specification: \<open>link_jobs = 4\<close> with parallelism 8 and 2.\<close>

theorem link_pool_depth_witness:
  "pool_decls (emitted (init_state Map.empty)
     (generate_cc_rules (minimal_config\<lparr>link_config_link_jobs := 4, parallel_jobs_num := 8\<rparr>)
        (init_state Map.empty)))
     = [''pool link_pool\<newline>  depth = 4\<newline>'']
   \<and> pool_decls (emitted (init_state Map.empty)
     (generate_cc_rules (minimal_config\<lparr>link_config_link_jobs := 4, parallel_jobs_num := 2\<rparr>)
        (init_state Map.empty)))
     = [''pool link_pool\<newline>  depth = 2\<newline>'']
   \<and> pool_decls (emitted (init_state Map.empty)
     (generate_cc_rules minimal_config (init_state Map.empty))) = []"
  using link_pool_depth [of "init_state Map.empty"
          "minimal_config\<lparr>link_config_link_jobs := 4, parallel_jobs_num := 8\<rparr>"]
        link_pool_depth [of "init_state Map.empty"
          "minimal_config\<lparr>link_config_link_jobs := 4, parallel_jobs_num := 2\<rparr>"]
        link_pool_depth [of "init_state Map.empty" minimal_config]
  by (simp add: minimal_config_def str_int_def str_nat.simps)

section \<open>Relative paths\<close>

lemma split_sep_not_Nil: "split_sep sep s \<noteq> []"
  by (induction s) (auto split: list.splits)

lemma split_sep_no_sep: "w \<in> set (split_sep sep s) \<Longrightarrow> sep \<notin> set w"
proof (induction s arbitrary: w)
  case Nil
  then show ?case by simp
next
  case (Cons ch cs)
  show ?case
  proof (cases "ch = sep")
    case True
    with Cons show ?thesis by auto
  next
    case False
    obtain v vs where vs: "split_sep sep cs = v # vs"
      using split_sep_not_Nil [of sep cs] by (cases "split_sep sep cs") auto
    with Cons False show ?thesis by auto
  qed
qed

lemma endswith_slash: "r \<noteq> [] \<Longrightarrow> endswith r ''/'' = (last r = CHR ''/'')"
proof -
  assume "r \<noteq> []"
  then obtain ys y where r: "r = ys @ [y]" by (metis rev_exhaust)
  show ?thesis by (simp add: endswith_def r)
qed

lemma path_join_step_part:
  assumes "acc \<noteq> []" "last acc \<noteq> CHR ''/''" "b \<noteq> []" "CHR ''/'' \<notin> set b"
  shows "path_join_step acc b = acc @ ''/'' @ b"
proof -
  from assms(3,4) have "\<not> startswith b ''/''" by (cases b) auto
  with assms show ?thesis by (simp add: path_join_step_def endswith_slash)
qed

lemma path_join_parts:
  assumes "acc \<noteq> []" "last acc \<noteq> CHR ''/''" "\<forall>w\<in>set rs. w \<noteq> [] \<and> CHR ''/'' \<notin> set w"
  shows "path_join acc rs \<noteq> [] \<and> last (path_join acc rs) \<noteq> CHR ''/''"
  using assms
proof (induction rs arbitrary: acc)
  case Nil
  then show ?case by (simp add: path_join_def)
next
  case (Cons b rs)
  have step: "path_join_step acc b = acc @ ''/'' @ b"
    using Cons.prems by (intro path_join_step_part) auto
  have "last (acc @ ''/'' @ b) \<noteq> CHR ''/''"
    using Cons.prems by (auto simp: last_append dest: last_in_set)
  then have "path_join (acc @ ''/'' @ b) rs \<noteq> [] \<and> last (path_join (acc @ ''/'' @ b) rs) \<noteq> CHR ''/''"
    using Cons.prems by (intro Cons.IH) auto
  then show ?case by (simp add: path_join_def step)
qed

lemma relpath_result:
  assumes "path \<noteq> []"
  shows "\<exists>r. relpath cwd path start = Inr r \<and> r \<noteq> [] \<and> last r \<noteq> CHR ''/''"
proof -
  define start_list where "start_list = filter (\<lambda>x. x \<noteq> []) (split_sep CHR ''/'' (abspath cwd start))"
  define path_list where "path_list = filter (\<lambda>x. x \<noteq> []) (split_sep CHR ''/'' (abspath cwd path))"
  define rel_list where "rel_list = replicate (length start_list - common_len start_list path_list) ''..''
                                      @ drop (common_len start_list path_list) path_list"
  have parts: "\<forall>w\<in>set rel_list. w \<noteq> [] \<and> CHR ''/'' \<notin> set w"
  proof
    fix w assume "w \<in> set rel_list"
    then consider "w = ''..''" | "w \<in> set path_list"
      by (auto simp: rel_list_def dest: in_set_dropD)
    then show "w \<noteq> [] \<and> CHR ''/'' \<notin> set w"
    proof cases
      case 1 then show ?thesis by simp
    next
      case 2 then show ?thesis by (auto simp: path_list_def dest: split_sep_no_sep)
    qed
  qed
  have eq: "relpath cwd path start = (case rel_list of [] \<Rightarrow> Inr ''.'' | r # rs \<Rightarrow> Inr (path_join r rs))"
    using assms by (simp add: relpath_def Let_def rel_list_def start_list_def path_list_def)
  show ?thesis
  proof (cases rel_list)
    case Nil
    then show ?thesis by (simp add: eq)
  next
    case (Cons r rs)
    with parts have "r \<noteq> []" "CHR ''/'' \<notin> set r" "\<forall>w\<in>set rs. w \<noteq> [] \<and> CHR ''/'' \<notin> set w"
      by auto
    moreover from this have "last r \<noteq> CHR ''/''" using last_in_set by metis
    ultimately have "path_join r rs \<noteq> [] \<and> last (path_join r rs) \<noteq> CHR ''/''"
      by (intro path_join_parts) auto
    then show ?thesis by (simp add: eq Cons)
  qed
qed

lemma path_join_empty_last:
  "r \<noteq> [] \<Longrightarrow> last r \<noteq> CHR ''/'' \<Longrightarrow> path_join r [[]] = r @ ''/''"
  by (simp add: path_join_def path_join_step_def endswith_slash)


section \<open>The rules of the Go toolchain\<close>

lemma go_prefixes_module:
  assumes "go_config_go_module_enabled c" "go_config_go_module_relpath c \<noteq> []"
    "go_config_go c \<noteq> []"
  shows "\<exists>rel_go rel_out.
           relpath (os_getcwd c) (go_config_go c) (go_config_go_module_relpath c) = Inr rel_go
         \<and> relpath (os_getcwd c) ''./'' (go_config_go_module_relpath c) = Inr rel_out
         \<and> go_prefixes c =
             Inr (''cd '' @ go_config_go_module_relpath c @ '' && '' @ rel_go, rel_out @ ''/'')"
proof -
  obtain rel_go where g:
    "relpath (os_getcwd c) (go_config_go c) (go_config_go_module_relpath c) = Inr rel_go"
    using relpath_result [OF assms(3)] by blast
  obtain rel_out where r:
    "relpath (os_getcwd c) ''./'' (go_config_go_module_relpath c) = Inr rel_out"
    "rel_out \<noteq> []" "last rel_out \<noteq> CHR ''/''"
    using relpath_result [of "''./''"] by blast
  have "go_prefixes c =
          Inr (''cd '' @ go_config_go_module_relpath c @ '' && '' @ rel_go, rel_out @ ''/'')"
    using assms by (simp add: go_prefixes_def Let_def g r path_join_empty_last)
  with g r show ?thesis by blast
qed

lemma go_prefixes_total:
  "go_config_go c \<noteq> [] \<Longrightarrow> \<exists>prefix out_relative. go_prefixes c = Inr (prefix, out_relative)"
proof -
  assume go: "go_config_go c \<noteq> []"
  obtain rel_go where g:
    "relpath (os_getcwd c) (go_config_go c) (go_config_go_module_relpath c) = Inr rel_go"
    using relpath_result [OF go] by blast
  obtain rel_out where r:
    "relpath (os_getcwd c) ''./'' (go_config_go_module_relpath c) = Inr rel_out"
    using relpath_result [of "''./''"] by blast
  show ?thesis by (simp add: go_prefixes_def Let_def g r)
qed

lemma go_rules_emitted:
  assumes "go_config_go_home c \<noteq> []" "go_config_go c \<noteq> []"
    "go_prefixes c = Inr (prefix, out_relative)"
  shows "\<exists>s'. generate_go_rules c s = Inr s'
     \<and> rule_command ''gocommand'' (emitted s s')
         = prefix @ '' build -o '' @ out_relative @ ''${out} ${extra_goflags} ${package}''
     \<and> rule_command ''gotest'' (emitted s s')
         = prefix @ '' test -c -o '' @ out_relative @ ''${out} ${extra_goflags} ${package}''
     \<and> pool_decls (emitted s s') = [''pool golang_pool\<newline>  depth = 1\<newline>'']"
  using assms unfolding generate_go_rules_def Let_def
  by (simp add: emitted_def block_simps rule_command_block' cong: block_congs split del: if_split)

lemma go_rules_skipped:
  "go_config_go_home c = [] \<or> go_config_go c = [] \<Longrightarrow> generate_go_rules c s = Inr s"
  by (auto simp: generate_go_rules_def)

text \<open>
  Claim C1. Let go-module mode be enabled and the module sub-path \<open>p\<close> be non-empty. Then
  \<open>generate_go_rules\<close> returns without error. When \<open>go_home\<close> and \<open>go\<close> are configured, so
  that the rules are generated, the commands of \<open>gocommand\<close> and \<open>gotest\<close> start with
  \<open>cd p &&\<close> followed by the path of the go binary made relative to \<open>p\<close>
  (\<open>os.path.relpath(go, p)\<close>), and the output path \<open>${out}\<close> in them is prefixed with
  \<open>os.path.relpath('./', p)\<close> followed by the separator \<open>/\<close>. When one of the two is not
  configured, no rule is generated at all.
\<close>

theorem go_module_commands:
  assumes "go_config_go_module_enabled c" "go_config_go_module_relpath c \<noteq> []"
  shows "\<exists>s'. generate_go_rules c s = Inr s' \<and>
     (if go_config_go_home c \<noteq> [] \<and> go_config_go c \<noteq> []
      then \<exists>rel_go rel_out.
             relpath (os_getcwd c) (go_config_go c) (go_config_go_module_relpath c) = Inr rel_go
           \<and> relpath (os_getcwd c) ''./'' (go_config_go_module_relpath c) = Inr rel_out
           \<and> rule_command ''gocommand'' (emitted s s')
               = ''cd '' @ go_config_go_module_relpath c @ '' && '' @ rel_go
                 @ '' build -o '' @ rel_out @ ''/'' @ ''${out} ${extra_goflags} ${package}''
           \<and> rule_command ''gotest'' (emitted s s')
               = ''cd '' @ go_config_go_module_relpath c @ '' && '' @ rel_go
                 @ '' test -c -o '' @ rel_out @ ''/'' @ ''${out} ${extra_goflags} ${package}''
      else emitted s s' = [])"
proof (cases "go_config_go_home c \<noteq> [] \<and> go_config_go c \<noteq> []")
  case True
  then have home: "go_config_go_home c \<noteq> []" and go: "go_config_go c \<noteq> []" by auto
  obtain rel_go rel_out where
    g: "relpath (os_getcwd c) (go_config_go c) (go_config_go_module_relpath c) = Inr rel_go" and
    r: "relpath (os_getcwd c) ''./'' (go_config_go_module_relpath c) = Inr rel_out" and
    p: "go_prefixes c =
          Inr (''cd '' @ go_config_go_module_relpath c @ '' && '' @ rel_go, rel_out @ ''/'')"
    using go_prefixes_module [OF assms go] by blast
  obtain s' where s': "generate_go_rules c s = Inr s'"
    "rule_command ''gocommand'' (emitted s s')
       = (''cd '' @ go_config_go_module_relpath c @ '' && '' @ rel_go) @ '' build -o ''
         @ (rel_out @ ''/'') @ ''${out} ${extra_goflags} ${package}''"
    "rule_command ''gotest'' (emitted s s')
       = (''cd '' @ go_config_go_module_relpath c @ '' && '' @ rel_go) @ '' test -c -o ''
         @ (rel_out @ ''/'') @ ''${out} ${extra_goflags} ${package}''"
    using go_rules_emitted [OF home go p, of s] by blast
  show ?thesis
    using True g r s' by simp
next
  case False
  then have "go_config_go_home c = [] \<or> go_config_go c = []" by simp
  from go_rules_skipped [OF this, of s] False show ?thesis
    by (auto simp: emitted_def)
qed

text \<open>An instance: module path \<open>src/mod\<close>, go binary \<open>go\<close>, working directory \<open>/w\<close>.\<close>

theorem go_module_commands_witness:
  "\<exists>s'. generate_go_rules
           (minimal_config\<lparr>go_config_go_home := ''/go'', go_config_go := ''go'',
              go_config_go_module_enabled := True, go_config_go_module_relpath := ''src/mod''\<rparr>)
           (init_state Map.empty) = Inr s'
     \<and> rule_command ''gocommand'' (emitted (init_state Map.empty) s')
         = ''cd src/mod && ../../go build -o ../../${out} ${extra_goflags} ${package}''
     \<and> rule_command ''gotest'' (emitted (init_state Map.empty) s')
         = ''cd src/mod && ../../go test -c -o ../../${out} ${extra_goflags} ${package}''"
proof -
  let ?c = "minimal_config\<lparr>go_config_go_home := ''/go'', go_config_go := ''go'',
              go_config_go_module_enabled := True, go_config_go_module_relpath := ''src/mod''\<rparr>"
  have e: "go_config_go_module_enabled ?c" by simp
  have p: "go_config_go_module_relpath ?c \<noteq> []" by simp
  have g: "relpath (os_getcwd ?c) (go_config_go ?c) (go_config_go_module_relpath ?c) = Inr ''../../go''"
    by (simp add: minimal_config_def relpath_def abspath_def normpath_def isabs_def
        endswith_def path_join_def path_join_step_def normpath_step_def)
  have r: "relpath (os_getcwd ?c) ''./'' (go_config_go_module_relpath ?c) = Inr ''../..''"
    by (simp add: minimal_config_def relpath_def abspath_def normpath_def isabs_def
        endswith_def path_join_def path_join_step_def normpath_step_def)
  show ?thesis
    using go_module_commands [OF e p, of "init_state Map.empty"] g r
    by (simp add: minimal_config_def)
qed

section \<open>What each routine appends\<close>

text \<open>
  For every routine: it reads nothing from the process environment and leaves it alone
  (only \<open>generate_cc_rules\<close> does otherwise), the pool declarations it appends, and the
  names of the rules it appends.
\<close>

lemma rule_names_simps:
  "rule_names [] = []"
  "rule_names (x # xs) = (if startswith x ''rule '' then [butlast (drop 5 x)] else []) @ rule_names xs"
  "rule_names (xs @ ys) = rule_names xs @ rule_names ys"
  "rule_names (rule_block c n cmd d df g p r rf rc dp) = [n]"
  by (simp_all add: rule_names_def rule_block_def flag_lines_def)

lemma generate_rule_environ:
  "generate_rule c n cmd d df g p r rf rc dp (s\<lparr>os_environ := e, py_lists := h\<rparr>)
     = (generate_rule c n cmd d df g p r rf rc dp s)\<lparr>os_environ := e, py_lists := h\<rparr>"
  by (simp add: generate_rule_eq append_lines_def)


lemmas routine_simps = generate_rule_eq append_lines_def add_rule_def Let_def

lemma generate_file_header_facts:
  "generate_file_header c (s\<lparr>os_environ := e, py_lists := h\<rparr>) = (generate_file_header c s)\<lparr>os_environ := e, py_lists := h\<rparr>"
  "pool_decls (rules_buf (generate_file_header c s))
     = pool_decls (rules_buf s) @ [''pool heavy_pool\<newline>  depth = 1\<newline>\<newline>'']"
  "rule_names (rules_buf (generate_file_header c s)) = rule_names (rules_buf s)"
  by (simp_all add: generate_file_header_def routine_simps pool_decls_simps rule_names_simps
        cong: block_congs split del: if_split)

lemma generate_common_rules_facts:
  "generate_common_rules c (s\<lparr>os_environ := e, py_lists := h\<rparr>) = (generate_common_rules c s)\<lparr>os_environ := e, py_lists := h\<rparr>"
  "pool_decls (rules_buf (generate_common_rules c s)) = pool_decls (rules_buf s)"
  "rule_names (rules_buf (generate_common_rules c s)) = rule_names (rules_buf s) @ [''stamp'', ''copy'']"
  by (simp_all add: generate_common_rules_def routine_simps pool_decls_simps rule_names_simps
        cong: block_congs split del: if_split)

lemma generate_resource_rules_facts:
  "generate_resource_rules c (s\<lparr>os_environ := e, py_lists := h\<rparr>) = (generate_resource_rules c s)\<lparr>os_environ := e, py_lists := h\<rparr>"
  "pool_decls (rules_buf (generate_resource_rules c s)) = pool_decls (rules_buf s)"
  "rule_names (rules_buf (generate_resource_rules c s))
     = rule_names (rules_buf s) @ [''resource_index'', ''resource'']"
  by (simp_all add: generate_resource_rules_def routine_simps pool_decls_simps rule_names_simps
        cong: block_congs split del: if_split)

lemma generate_javac_rules_facts:
  "generate_javac_rules c (s\<lparr>os_environ := e, py_lists := h\<rparr>) = (generate_javac_rules c s)\<lparr>os_environ := e, py_lists := h\<rparr>"
  "pool_decls (rules_buf (generate_javac_rules c s)) = pool_decls (rules_buf s)"
  "rule_names (rules_buf (generate_javac_rules c s)) = rule_names (rules_buf s) @ [''javac'']"
  by (simp_all add: generate_javac_rules_def routine_simps pool_decls_simps rule_names_simps
        cong: block_congs split del: if_split)

lemma generate_java_resource_rules_facts:
  "generate_java_resource_rules c (s\<lparr>os_environ := e, py_lists := h\<rparr>)
     = (generate_java_resource_rules c s)\<lparr>os_environ := e, py_lists := h\<rparr>"
  "pool_decls (rules_buf (generate_java_resource_rules c s)) = pool_decls (rules_buf s)"
  "rule_names (rules_buf (generate_java_resource_rules c s))
     = rule_names (rules_buf s) @ [''javaresource'']"
  by (simp_all add: generate_java_resource_rules_def routine_simps pool_decls_simps
        rule_names_simps cong: block_congs split del: if_split)

lemma generate_java_test_rules_facts:
  "generate_java_test_rules c (s\<lparr>os_environ := e, py_lists := h\<rparr>)
     = (generate_java_test_rules c s)\<lparr>os_environ := e, py_lists := h\<rparr>"
  "pool_decls (rules_buf (generate_java_test_rules c s)) = pool_decls (rules_buf s)"
  "rule_names (rules_buf (generate_java_test_rules c s)) = rule_names (rules_buf s) @ [''javatest'']"
  by (simp_all add: generate_java_test_rules_def routine_simps pool_decls_simps
        rule_names_simps cong: block_congs split del: if_split)

lemma generate_java_binary_rules_facts:
  "generate_java_binary_rules c (s\<lparr>os_environ := e, py_lists := h\<rparr>)
     = (generate_java_binary_rules c s)\<lparr>os_environ := e, py_lists := h\<rparr>"
  "pool_decls (rules_buf (generate_java_binary_rules c s)) = pool_decls (rules_buf s)"
  "rule_names (rules_buf (generate_java_binary_rules c s))
     = rule_names (rules_buf s) @ [''onejar'', ''javabinary'']"
  by (simp_all add: generate_java_binary_rules_def routine_simps pool_decls_simps
        rule_names_simps cong: block_congs split del: if_split)

lemma generate_scala_rules_facts:
  "generate_scala_rules c (s\<lparr>os_environ := e, py_lists := h\<rparr>) = (generate_scala_rules c s)\<lparr>os_environ := e, py_lists := h\<rparr>"
  "pool_decls (rules_buf (generate_scala_rules c s)) = pool_decls (rules_buf s)"
  "rule_names (rules_buf (generate_scala_rules c s))
     = rule_names (rules_buf s) @ [''scalac'', ''scalatest'']"
  by (simp_all add: generate_scala_rules_def routine_simps pool_decls_simps
        rule_names_simps cong: block_congs split del: if_split)

lemma generate_java_scala_rules_facts:
  "generate_java_scala_rules c (s\<lparr>os_environ := e, py_lists := h\<rparr>)
     = (generate_java_scala_rules c s)\<lparr>os_environ := e, py_lists := h\<rparr>"
  "pool_decls (rules_buf (generate_java_scala_rules c s)) = pool_decls (rules_buf s)"
  "rule_names (rules_buf (generate_java_scala_rules c s))
     = rule_names (rules_buf s)
       @ [''javac'', ''javaresource'', ''javajar'', ''javatest'', ''fatjar'', ''onejar'',
          ''javabinary'', ''scalac'', ''scalatest'']"
  by (simp_all add: generate_java_scala_rules_def Let_def generate_rule_environ pool_decls_simps
        rule_names_simps generate_javac_rules_facts generate_java_resource_rules_facts
        generate_java_test_rules_facts generate_java_binary_rules_facts
        generate_scala_rules_facts cong: block_congs split del: if_split)

lemma generate_thrift_rules_facts:
  "generate_thrift_rules c (s\<lparr>os_environ := e, py_lists := h\<rparr>) = (generate_thrift_rules c s)\<lparr>os_environ := e, py_lists := h\<rparr>"
  "pool_decls (rules_buf (generate_thrift_rules c s)) = pool_decls (rules_buf s)"
  "rule_names (rules_buf (generate_thrift_rules c s)) = rule_names (rules_buf s) @ [''thrift'']"
  by (simp_all add: generate_thrift_rules_def routine_simps pool_decls_simps
        rule_names_simps cong: block_congs split del: if_split)

lemma generate_python_rules_facts:
  "generate_python_rules c (s\<lparr>os_environ := e, py_lists := h\<rparr>) = (generate_python_rules c s)\<lparr>os_environ := e, py_lists := h\<rparr>"
  "pool_decls (rules_buf (generate_python_rules c s)) = pool_decls (rules_buf s)"
  "rule_names (rules_buf (generate_python_rules c s))
     = rule_names (rules_buf s) @ [''pythonlibrary'', ''pythonbinary'']"
  by (simp_all add: generate_python_rules_def routine_simps pool_decls_simps
        rule_names_simps cong: block_congs split del: if_split)

lemma generate_shell_rules_facts:
  "generate_shell_rules c (s\<lparr>os_environ := e, py_lists := h\<rparr>) = (generate_shell_rules c s)\<lparr>os_environ := e, py_lists := h\<rparr>"
  "pool_decls (rules_buf (generate_shell_rules c s)) = pool_decls (rules_buf s)"
  "rule_names (rules_buf (generate_shell_rules c s))
     = rule_names (rules_buf s) @ [''shelltest'', ''shelltestdata'']"
  by (simp_all add: generate_shell_rules_def routine_simps pool_decls_simps
        rule_names_simps cong: block_congs split del: if_split)

lemma generate_lex_yacc_rules_facts:
  "generate_lex_yacc_rules c (s\<lparr>os_environ := e, py_lists := h\<rparr>)
     = (generate_lex_yacc_rules c s)\<lparr>os_environ := e, py_lists := h\<rparr>"
  "pool_decls (rules_buf (generate_lex_yacc_rules c s)) = pool_decls (rules_buf s)"
  "rule_names (rules_buf (generate_lex_yacc_rules c s)) = rule_names (rules_buf s) @ [''lex'', ''yacc'']"
  by (simp_all add: generate_lex_yacc_rules_def routine_simps pool_decls_simps
        rule_names_simps cong: block_congs split del: if_split)

lemma generate_package_rules_facts:
  "generate_package_rules c (s\<lparr>os_environ := e, py_lists := h\<rparr>)
     = (generate_package_rules c s)\<lparr>os_environ := e, py_lists := h\<rparr>"
  "pool_decls (rules_buf (generate_package_rules c s)) = pool_decls (rules_buf s)"
  "rule_names (rules_buf (generate_package_rules c s))
     = rule_names (rules_buf s) @ [''package'', ''package_tar'', ''package_zip'']"
  by (simp_all add: generate_package_rules_def routine_simps pool_decls_simps
        rule_names_simps cong: block_congs split del: if_split)

lemma generate_version_rules_facts:
  "generate_version_rules c (s\<lparr>os_environ := e, py_lists := h\<rparr>)
     = (generate_version_rules c s)\<lparr>os_environ := e, py_lists := h\<rparr>"
  "pool_decls (rules_buf (generate_version_rules c s)) = pool_decls (rules_buf s)"
  "rule_names (rules_buf (generate_version_rules c s)) = rule_names (rules_buf s) @ [''scm'']"
  by (simp_all add: generate_version_rules_def routine_simps pool_decls_simps
        rule_names_simps cong: block_congs split del: if_split split: prod.splits)


lemma final_state_simps [simp]:
  "final_state (Inl (x, s)) = s" "final_state (Inr s) = s"
  "raised (Inl (x, s)) = Some x" "raised (Inr s) = None"
  by (simp_all add: final_state_def raised_def)

lemma with_outside_simps [simp]:
  "with_outside e h (Inl (x, s)) = Inl (x, s\<lparr>os_environ := e, py_lists := h\<rparr>)"
  "with_outside e h (Inr s) = Inr (s\<lparr>os_environ := e, py_lists := h\<rparr>)"
  by (simp_all add: with_outside_def)

lemma generate_proto_rules_facts:
  "generate_proto_rules c (s\<lparr>os_environ := e, py_lists := h\<rparr>) = with_outside e h (generate_proto_rules c s)"
  "pool_decls (rules_buf (final_state (generate_proto_rules c s))) = pool_decls (rules_buf s)"
  "rule_names (rules_buf (final_state (generate_proto_rules c s)))
     = rule_names (rules_buf s) @ [''proto'', ''protojava'', ''protopython'', ''protodescriptors'']
       @ (if proto_library_config_protoc_go_plugin c \<noteq> [] \<and> go_config_go_home c \<noteq> []
          then [''protogo''] else [])"
  "raised (generate_proto_rules c s)
     = (if proto_library_config_protoc_go_plugin c \<noteq> [] \<and> go_config_go_home c = []
        then Some (SystemExit
               ''go_home is not configured in either BLADE_ROOT or BLADE_ROOT.local.'')
        else None)"
  unfolding generate_proto_rules_def Let_def error_exit_def
  by (cases "proto_library_config_protoc_go_plugin c = []"; cases "go_config_go_home c = []";
      simp add: routine_simps pool_decls_simps rule_names_simps
        cong: block_congs split del: if_split)+

lemma generate_go_rules_facts:
  "generate_go_rules c (s\<lparr>os_environ := e, py_lists := h\<rparr>) = with_outside e h (generate_go_rules c s)"
  "pool_decls (rules_buf (final_state (generate_go_rules c s)))
     = pool_decls (rules_buf s)
       @ (if go_config_go_home c \<noteq> [] \<and> go_config_go c \<noteq> []
          then [''pool golang_pool\<newline>  depth = 1\<newline>''] else [])"
  "rule_names (rules_buf (final_state (generate_go_rules c s)))
     = rule_names (rules_buf s)
       @ (if go_config_go_home c \<noteq> [] \<and> go_config_go c \<noteq> []
          then [''gopackage'', ''gocommand'', ''gotest''] else [])"
  "raised (generate_go_rules c s) = None"
proof -
  show "generate_go_rules c (s\<lparr>os_environ := e, py_lists := h\<rparr>) = with_outside e h (generate_go_rules c s)"
    unfolding generate_go_rules_def Let_def
    by (cases "go_config_go_home c = []"; cases "go_config_go c = []"; cases "go_prefixes c")
       (auto simp: routine_simps cong: block_congs split del: if_split)
  show "pool_decls (rules_buf (final_state (generate_go_rules c s)))
     = pool_decls (rules_buf s)
       @ (if go_config_go_home c \<noteq> [] \<and> go_config_go c \<noteq> []
          then [''pool golang_pool\<newline>  depth = 1\<newline>''] else [])"
    unfolding generate_go_rules_def Let_def
    by (cases "go_config_go_home c = []"; cases "go_config_go c = []"; cases "go_prefixes c")
       (auto simp: routine_simps pool_decls_simps cong: block_congs split del: if_split)
  show "rule_names (rules_buf (final_state (generate_go_rules c s)))
     = rule_names (rules_buf s)
       @ (if go_config_go_home c \<noteq> [] \<and> go_config_go c \<noteq> []
          then [''gopackage'', ''gocommand'', ''gotest''] else [])"
    unfolding generate_go_rules_def Let_def
    using go_prefixes_total [of c]
    by (cases "go_config_go_home c = []"; cases "go_config_go c = []")
       (auto simp: routine_simps rule_names_simps cong: block_congs split del: if_split)
  show "raised (generate_go_rules c s) = None"
    unfolding generate_go_rules_def Let_def
    using go_prefixes_total [of c]
    by (cases "go_config_go_home c = []"; cases "go_config_go c = []")
       (auto simp: routine_simps cong: block_congs split del: if_split)
qed

lemma generate_cc_rules_names:
  "rule_names (rules_buf (generate_cc_rules c s))
     = rule_names (rules_buf s) @ [''cc'', ''cxx'']
       @ (if cc_config_header_inclusion_dependencies c then [''cchdrs'', ''cxxhdrs''] else [])
       @ [''securecccompile'', ''securecc'', ''ar'', ''link'', ''solink'', ''strip'']"
  unfolding generate_cc_rules_def Let_def generate_cc_warning_vars_eq
  apply (cases "cc_config_header_inclusion_dependencies c";
         cases "link_config_link_jobs c = 0")
  apply (simp_all add: rule_names_simps if_environ cong: block_congs split del: if_split)
  done

lemma generate_cc_rules_pools:
  "pool_decls (rules_buf (generate_cc_rules c s))
     = pool_decls (rules_buf s)
       @ (if link_config_link_jobs c \<noteq> 0
          then [''pool link_pool\<newline>  depth = ''
                @ str_int (min (link_config_link_jobs c) (parallel_jobs_num c)) @ ''\<newline>'']
          else [])"
  unfolding generate_cc_rules_def Let_def generate_cc_warning_vars_eq
  apply (cases "cc_config_header_inclusion_dependencies c";
         cases "link_config_link_jobs c = 0")
  apply (simp_all add: pool_decls_simps if_environ cong: block_congs split del: if_split)
  done




section \<open>Every routine appends\<close>











section \<open>The whole manifest\<close>


lemma result_eq: "r = (case raised r of None \<Rightarrow> Inr (final_state r) | Some x \<Rightarrow> Inl (x, final_state r))"
  by (cases r) auto

lemma generate_unfold:
  "generate c s =
     (case generate_proto_rules c
             (generate_cc_rules c (generate_common_rules c (generate_file_header c s))) of
        Inl x \<Rightarrow> Inl x
      | Inr s2 \<Rightarrow>
          (case generate_go_rules c
                  (generate_python_rules c (generate_thrift_rules c
                     (generate_java_scala_rules c (generate_resource_rules c s2)))) of
             Inl x \<Rightarrow> Inl x
           | Inr s3 \<Rightarrow>
               Inr (generate_version_rules c (generate_package_rules c
                      (generate_lex_yacc_rules c (generate_shell_rules c s3))))))"
  unfolding generate_def Let_def by (rule refl)

lemma generate_raised:
  "raised (generate c s)
     = (if proto_library_config_protoc_go_plugin c \<noteq> [] \<and> go_config_go_home c = []
        then Some (SystemExit
               ''go_home is not configured in either BLADE_ROOT or BLADE_ROOT.local.'')
        else None)"
proof -
  let ?s1 = "generate_cc_rules c (generate_common_rules c (generate_file_header c s))"
  show ?thesis
  proof (cases "generate_proto_rules c ?s1")
    case (Inl a)
    then show ?thesis
      using generate_proto_rules_facts(4) [of c ?s1]
      by (cases a) (simp add: generate_unfold)
  next
    case (Inr s2)
    let ?s3 = "generate_python_rules c (generate_thrift_rules c
                 (generate_java_scala_rules c (generate_resource_rules c s2)))"
    from generate_go_rules_facts(4) [of c ?s3]
    obtain s4 where go: "generate_go_rules c ?s3 = Inr s4"
      by (cases "generate_go_rules c ?s3") auto
    show ?thesis
      using generate_proto_rules_facts(4) [of c ?s1] Inr go
      by (simp add: generate_unfold)
  qed
qed

lemma generate_pools:
  "pool_decls (rules_buf (final_state (generate c s)))
     = pool_decls (rules_buf s) @ [''pool heavy_pool\<newline>  depth = 1\<newline>\<newline>'']
       @ (if link_config_link_jobs c \<noteq> 0
          then [''pool link_pool\<newline>  depth = ''
                @ str_int (min (link_config_link_jobs c) (parallel_jobs_num c)) @ ''\<newline>'']
          else [])
       @ (if go_config_go_home c \<noteq> [] \<and> go_config_go c \<noteq> []
          then [''pool golang_pool\<newline>  depth = 1\<newline>''] else [])"
proof -
  let ?s1 = "generate_cc_rules c (generate_common_rules c (generate_file_header c s))"
  have s1: "pool_decls (rules_buf ?s1)
     = pool_decls (rules_buf s) @ [''pool heavy_pool\<newline>  depth = 1\<newline>\<newline>'']
       @ (if link_config_link_jobs c \<noteq> 0
          then [''pool link_pool\<newline>  depth = ''
                @ str_int (min (link_config_link_jobs c) (parallel_jobs_num c)) @ ''\<newline>'']
          else [])"
    by (simp only: generate_cc_rules_pools generate_common_rules_facts(2)
          generate_file_header_facts(2) append_assoc)
  show ?thesis
  proof (cases "generate_proto_rules c ?s1")
    case (Inl a)
    obtain x t where a: "a = (x, t)" by (cases a)
    have "raised (generate_proto_rules c ?s1) = Some x"
      using Inl a by simp
    then have home: "go_config_go_home c = []"
      unfolding generate_proto_rules_facts(4) by (simp split: if_splits)
    have "pool_decls (rules_buf t) = pool_decls (rules_buf ?s1)"
      using generate_proto_rules_facts(2) [of c ?s1] Inl a by simp
    then show ?thesis
      using Inl a s1 home by (simp add: generate_unfold)
  next
    case (Inr s2)
    let ?s3 = "generate_python_rules c (generate_thrift_rules c
                 (generate_java_scala_rules c (generate_resource_rules c s2)))"
    from generate_go_rules_facts(4) [of c ?s3]
    obtain s4 where go: "generate_go_rules c ?s3 = Inr s4"
      by (cases "generate_go_rules c ?s3") auto
    have s2: "pool_decls (rules_buf s2) = pool_decls (rules_buf ?s1)"
      using generate_proto_rules_facts(2) [of c ?s1] Inr by simp
    have s3: "pool_decls (rules_buf ?s3) = pool_decls (rules_buf s2)"
      by (simp only: generate_python_rules_facts(2) generate_thrift_rules_facts(2)
            generate_java_scala_rules_facts(2) generate_resource_rules_facts(2))
    have s4: "pool_decls (rules_buf s4) = pool_decls (rules_buf ?s3)
       @ (if go_config_go_home c \<noteq> [] \<and> go_config_go c \<noteq> []
          then [''pool golang_pool\<newline>  depth = 1\<newline>''] else [])"
      using generate_go_rules_facts(2) [of c ?s3] go by simp
    have "pool_decls (rules_buf (final_state (generate c s))) = pool_decls (rules_buf s4)"
      using Inr go
      by (simp add: generate_unfold generate_version_rules_facts(2)
            generate_package_rules_facts(2) generate_lex_yacc_rules_facts(2)
            generate_shell_rules_facts(2))
    then show ?thesis
      unfolding s4 s3 s2 s1 by simp
  qed
qed

lemma generate_protogo:
  assumes "''protogo'' \<notin> set (rule_names (rules_buf s))"
  shows "(''protogo'' \<in> set (rule_names (rules_buf (final_state (generate c s)))))
           = (proto_library_config_protoc_go_plugin c \<noteq> [] \<and> go_config_go_home c \<noteq> [])"
proof -
  let ?s1 = "generate_cc_rules c (generate_common_rules c (generate_file_header c s))"
  have s1: "''protogo'' \<notin> set (rule_names (rules_buf ?s1))"
    using assms
    by (simp add: generate_cc_rules_names generate_common_rules_facts(3)
          generate_file_header_facts(3))
  show ?thesis
  proof (cases "generate_proto_rules c ?s1")
    case (Inl a)
    obtain x t where a: "a = (x, t)" by (cases a)
    have "raised (generate_proto_rules c ?s1) = Some x"
      using Inl a by simp
    then have home: "go_config_go_home c = []"
      unfolding generate_proto_rules_facts(4) by (simp split: if_splits)
    have "''protogo'' \<notin> set (rule_names (rules_buf t))"
      using generate_proto_rules_facts(3) [of c ?s1] Inl a s1 home by simp
    then show ?thesis
      using Inl a home by (simp add: generate_unfold)
  next
    case (Inr s2)
    let ?s3 = "generate_python_rules c (generate_thrift_rules c
                 (generate_java_scala_rules c (generate_resource_rules c s2)))"
    from generate_go_rules_facts(4) [of c ?s3]
    obtain s4 where go: "generate_go_rules c ?s3 = Inr s4"
      by (cases "generate_go_rules c ?s3") auto
    have s2: "(''protogo'' \<in> set (rule_names (rules_buf s2)))
                = (proto_library_config_protoc_go_plugin c \<noteq> [] \<and> go_config_go_home c \<noteq> [])"
      using generate_proto_rules_facts(3) [of c ?s1] Inr s1 by simp
    have s3: "(''protogo'' \<in> set (rule_names (rules_buf ?s3)))
                = (''protogo'' \<in> set (rule_names (rules_buf s2)))"
      by (simp add: generate_python_rules_facts(3) generate_thrift_rules_facts(3)
            generate_java_scala_rules_facts(3) generate_resource_rules_facts(3))
    have s4: "(''protogo'' \<in> set (rule_names (rules_buf s4)))
                = (''protogo'' \<in> set (rule_names (rules_buf ?s3)))"
      using generate_go_rules_facts(3) [of c ?s3] go by simp
    have "(''protogo'' \<in> set (rule_names (rules_buf (final_state (generate c s)))))
            = (''protogo'' \<in> set (rule_names (rules_buf s4)))"
      using Inr go
      by (simp add: generate_unfold generate_version_rules_facts(3)
            generate_package_rules_facts(3) generate_lex_yacc_rules_facts(3)
            generate_shell_rules_facts(3))
    then show ?thesis
      unfolding s4 s3 s2 by simp
  qed
qed






text \<open>
  A remark on the list objects: \<open>generate_cc_warning_vars\<close> leaves the lists it was handed
  extended. With a collaborator that hands out the same three objects at every call, the
  list \<open>warnings\<close> holding \<open>-Wall\<close>, the first call prints \<open>-Wall\<close> once and the next call
  prints it twice.
\<close>

lemma warning_lists_extended_in_place:
  "emitted ((init_state Map.empty)\<lparr>py_lists := (\<lambda>r. [])(0 := [''-Wall''])\<rparr>)
     (generate_cc_warning_vars minimal_config
        ((init_state Map.empty)\<lparr>py_lists := (\<lambda>r. [])(0 := [''-Wall''])\<rparr>))
     = [''c_warnings = -Wall\<newline>cxx_warnings = -Wall\<newline>\<newline>'']
   \<and> emitted
       (generate_cc_warning_vars minimal_config
          ((init_state Map.empty)\<lparr>py_lists := (\<lambda>r. [])(0 := [''-Wall''])\<rparr>))
       (generate_cc_warning_vars minimal_config
          (generate_cc_warning_vars minimal_config
             ((init_state Map.empty)\<lparr>py_lists := (\<lambda>r. [])(0 := [''-Wall''])\<rparr>)))
     = [''c_warnings = -Wall -Wall\<newline>cxx_warnings = -Wall -Wall\<newline>\<newline>'']"
  by (simp add: generate_cc_warning_vars_def minimal_config_def init_state_def emitted_def
        Let_def)

text \<open>
  Claim C5, as the code has it. There is no pool registry and no error for conflicting
  declarations: a pool declaration is text appended to the buffer. One run of \<open>generate\<close>
  on a new generator declares \<open>heavy_pool\<close> with depth 1, then \<open>link_pool\<close> with depth
  \<open>min link_jobs parallelism\<close> when \<open>link_jobs\<close> is set, then \<open>golang_pool\<close> with depth 1
  when \<open>go_home\<close> and \<open>go\<close> are set, and nothing else; so every pool name is declared at
  most once in that manifest, with one depth.
\<close>

theorem generate_pool_declarations:
  "pool_decls (rules_buf (final_state (generate c (init_state env))))
     = [''pool heavy_pool\<newline>  depth = 1\<newline>\<newline>'']
       @ (if link_config_link_jobs c \<noteq> 0
          then [''pool link_pool\<newline>  depth = ''
                @ str_int (min (link_config_link_jobs c) (parallel_jobs_num c)) @ ''\<newline>'']
          else [])
       @ (if go_config_go_home c \<noteq> [] \<and> go_config_go c \<noteq> []
          then [''pool golang_pool\<newline>  depth = 1\<newline>''] else [])
   \<and> distinct (map pool_name (pool_decls (rules_buf (final_state (generate c (init_state env))))))"
proof -
  have "pool_decls (rules_buf (init_state env)) = []"
    by (simp add: init_state_def pool_decls_def)
  then show ?thesis
    unfolding generate_pools by (simp add: pool_name_def)
qed

text \<open>
  The claim as stated fails: in one generator, \<open>generate_cc_rules\<close> run with \<open>link_jobs = 4\<close>
  at parallelism 8 and again at parallelism 2 declares \<open>link_pool\<close> with depth 4 and then
  with depth 2; both declarations are in the buffer and nothing is raised.
\<close>

theorem conflicting_pool_counterexample:
  "pool_decls
     (rules_buf
        (generate_cc_rules (minimal_config\<lparr>link_config_link_jobs := 4, parallel_jobs_num := 2\<rparr>)
           (generate_cc_rules (minimal_config\<lparr>link_config_link_jobs := 4\<rparr>)
              (init_state Map.empty))))
     = [''pool link_pool\<newline>  depth = 4\<newline>'', ''pool link_pool\<newline>  depth = 2\<newline>'']"
  unfolding generate_cc_rules_pools
  by (simp add: minimal_config_def init_state_def pool_decls_def str_int_def str_nat.simps)

text \<open>
  Claim C8. When \<open>protoc_go_plugin\<close> is not configured, \<open>generate_proto_rules\<close> and the whole
  of \<open>generate\<close> return without error, \<open>generate_proto_rules\<close> appends the four rules
  \<open>proto\<close>, \<open>protojava\<close>, \<open>protopython\<close>, \<open>protodescriptors\<close> only, and the manifest has no rule
  \<open>protogo\<close>. When the plugin is configured and \<open>go_home\<close> is not, \<open>generate_proto_rules\<close>
  raises the exit error with the message that \<open>go_home\<close> is not configured, \<open>generate\<close>
  raises the same error, and the buffer reached has no rule \<open>protogo\<close>.
\<close>

theorem protogo_rule_optional:
  "(proto_library_config_protoc_go_plugin c = [] \<longrightarrow>
      raised (generate_proto_rules c s) = None
    \<and> raised (generate c s) = None
    \<and> rule_names (rules_buf (final_state (generate_proto_rules c s)))
        = rule_names (rules_buf s) @ [''proto'', ''protojava'', ''protopython'', ''protodescriptors'']
    \<and> (''protogo'' \<notin> set (rule_names (rules_buf s)) \<longrightarrow>
          ''protogo'' \<notin> set (rule_names (rules_buf (final_state (generate c s))))))
   \<and> (proto_library_config_protoc_go_plugin c \<noteq> [] \<and> go_config_go_home c = [] \<longrightarrow>
      raised (generate_proto_rules c s)
        = Some (SystemExit ''go_home is not configured in either BLADE_ROOT or BLADE_ROOT.local.'')
    \<and> raised (generate c s)
        = Some (SystemExit ''go_home is not configured in either BLADE_ROOT or BLADE_ROOT.local.'')
    \<and> rule_names (rules_buf (final_state (generate_proto_rules c s)))
        = rule_names (rules_buf s) @ [''proto'', ''protojava'', ''protopython'', ''protodescriptors'']
    \<and> (''protogo'' \<notin> set (rule_names (rules_buf s)) \<longrightarrow>
          ''protogo'' \<notin> set (rule_names (rules_buf (final_state (generate c s))))))"
  using generate_protogo [of s c]
  by (simp add: generate_proto_rules_facts(3,4) generate_raised)

text \<open>
  Two instances on a new generator: the configuration with every optional setting unset,
  and the same with the plugin configured and \<open>go_home\<close> still unset.
\<close>

theorem protogo_rule_optional_witness:
  "raised (generate minimal_config (init_state Map.empty)) = None
   \<and> ''protogo'' \<notin> set (rule_names (rules_buf (final_state
        (generate minimal_config (init_state Map.empty)))))
   \<and> raised (generate (minimal_config\<lparr>proto_library_config_protoc_go_plugin := ''protoc-gen-go''\<rparr>)
        (init_state Map.empty))
       = Some (SystemExit ''go_home is not configured in either BLADE_ROOT or BLADE_ROOT.local.'')
   \<and> ''protogo'' \<notin> set (rule_names (rules_buf (final_state
        (generate (minimal_config\<lparr>proto_library_config_protoc_go_plugin := ''protoc-gen-go''\<rparr>)
           (init_state Map.empty)))))"
  using protogo_rule_optional [of minimal_config "init_state Map.empty"]
        protogo_rule_optional
          [of "minimal_config\<lparr>proto_library_config_protoc_go_plugin := ''protoc-gen-go''\<rparr>"
              "init_state Map.empty"]
  by (simp add: minimal_config_def init_state_def rule_names_def)

end
